theory Spec2Isabelle
  imports Main "HOL-Library.AList"
begin


section \<open>JavaScript values and objects\<close>

text \<open>
  The library stores its buckets, its files and the metadata of a file in plain
  JavaScript objects.  The own enumerable properties of an object are modelled
  by a list, in the order in which \<^verbatim>\<open>Object.entries\<close> and the spread operator
  enumerate them: the keys that are array indices first, in ascending numeric
  order, then the other string keys in the order of their creation.  A read
  \<^verbatim>\<open>o[k]\<close> that finds no own property goes on to the prototype of the object;
  this is modelled below, for the objects that the library reads with computed
  keys.  Strings are lists of characters, a \<^verbatim>\<open>Buffer\<close> is the list of its bytes.
\<close>

type_synonym 'v js_object = "(string \<times> 'v) list"

type_synonym Buffer = "char list"

text \<open>The decimal digits; the value of a digit is its place in this list.\<close>

definition decimal_digits :: string where
  "decimal_digits = ''0123456789''"

definition is_digit :: "char \<Rightarrow> bool" where
  "is_digit c = (c \<in> set decimal_digits)"

definition digit_value :: "char \<Rightarrow> nat" where
  "digit_value c = length (takeWhile (\<lambda>d. d \<noteq> c) decimal_digits)"

definition numeric_value :: "string \<Rightarrow> nat" where
  "numeric_value s = foldl (\<lambda>n c. 10 * n + digit_value c) 0 s"

text \<open>
  An array index is the canonical decimal numeral of an integer between 0 and
  \<open>2\<^sup>3\<^sup>2 - 2\<close>: digits only, no leading zero.
\<close>

definition is_array_index :: "string \<Rightarrow> bool" where
  "is_array_index s =
     (s \<noteq> [] \<and> list_all is_digit s
      \<and> (if hd s = CHR ''0'' then s = ''0'' else True)
      \<and> numeric_value s < 4294967295)"

text \<open>Creating the new array-index key \<open>k\<close>: it goes behind the smaller indices.\<close>

fun insert_index :: "string \<Rightarrow> 'v \<Rightarrow> 'v js_object \<Rightarrow> 'v js_object" where
  "insert_index k v [] = [(k, v)]"
| "insert_index k v (p # ps) =
     (if is_array_index (fst p) \<and> numeric_value (fst p) < numeric_value k
      then p # insert_index k v ps
      else (k, v) # p # ps)"

text \<open>
  Creating or overwriting the own property \<open>k\<close>, as an object literal and a
  spread do for every key, and an assignment for every key but \<^verbatim>\<open>__proto__\<close>: an
  existing property keeps its place, a new array index is sorted in, any other
  new key is appended.
\<close>

definition obj_set :: "'v js_object \<Rightarrow> string \<Rightarrow> 'v \<Rightarrow> 'v js_object" where
  "obj_set ps k v =
     (if k \<in> set (map fst ps) then AList.update k v ps
      else if is_array_index k then insert_index k v ps
      else ps @ [(k, v)])"

text \<open>The own property \<open>k\<close> (\<open>None\<close> when there is none), and \<^verbatim>\<open>delete o[k]\<close>.\<close>

definition obj_get :: "'v js_object \<Rightarrow> string \<Rightarrow> 'v option" where
  "obj_get ps k = map_of ps k"

definition obj_delete :: "'v js_object \<Rightarrow> string \<Rightarrow> 'v js_object" where
  "obj_delete ps k = AList.delete k ps"

text \<open>
  The properties of \<^verbatim>\<open>Object.prototype\<close>, which every plain object inherits.  All
  are methods but \<^verbatim>\<open>__proto__\<close>, an accessor: read, it gives the prototype of the
  object, and assigned an object, it makes this object the prototype and
  creates no property.
\<close>

definition Object_prototype_names :: "string list" where
  "Object_prototype_names =
     [''constructor'', ''__defineGetter__'', ''__defineSetter__'', ''hasOwnProperty'',
      ''__lookupGetter__'', ''__lookupSetter__'', ''isPrototypeOf'', ''propertyIsEnumerable'',
      ''toString'', ''valueOf'', ''__proto__'', ''toLocaleString'']"

text \<open>
  The own properties after the assignment \<^verbatim>\<open>o[k] = v\<close>.  Every inherited property
  that the library can meet is writable, so that the assignment creates an own
  property, but for \<^verbatim>\<open>__proto__\<close>, whose setter runs instead.
\<close>

definition assign_own :: "'v js_object \<Rightarrow> string \<Rightarrow> 'v \<Rightarrow> 'v js_object" where
  "assign_own ps k v =
     (if k = ''__proto__'' \<and> obj_get ps k = None then ps else obj_set ps k v)"

text \<open>Copying the properties \<open>src\<close> into \<open>target\<close> one by one, as a spread does.\<close>

definition assign_props :: "'v js_object \<Rightarrow> 'v js_object \<Rightarrow> 'v js_object" where
  "assign_props target src = foldl (\<lambda>acc p. obj_set acc (fst p) (snd p)) target src"

text \<open>The type \<^verbatim>\<open>any\<close> of metadata: the values of JavaScript that JSON can write, and \<^verbatim>\<open>undefined\<close>.\<close>

datatype jsval =
    JUndefined
  | JNull
  | JBool bool
  | JNum int
  | JStr string
  | JObj "(string \<times> jsval) list"

fun truthy :: "jsval \<Rightarrow> bool" where
  "truthy JUndefined = False"
| "truthy JNull = False"
| "truthy (JBool b) = b"
| "truthy (JNum n) = (n \<noteq> 0)"
| "truthy (JStr s) = (s \<noteq> [])"
| "truthy (JObj ps) = True"

datatype js_error = Error string | TypeError string

text \<open>
  The read \<^verbatim>\<open>v.metadata\<close>: a TypeError on \<^verbatim>\<open>undefined\<close> and \<^verbatim>\<open>null\<close>.  No built-in
  prototype has a property \<^verbatim>\<open>metadata\<close>, so the read finds an own property or nothing.
\<close>

fun prop_metadata :: "jsval \<Rightarrow> js_error + jsval" where
  "prop_metadata JUndefined =
     Inl (TypeError ''Cannot read properties of undefined (reading 'metadata')'')"
| "prop_metadata JNull =
     Inl (TypeError ''Cannot read properties of null (reading 'metadata')'')"
| "prop_metadata (JObj ps) = Inr (case obj_get ps ''metadata'' of None \<Rightarrow> JUndefined | Some v \<Rightarrow> v)"
| "prop_metadata v = Inr JUndefined"

definition digit_char :: "nat \<Rightarrow> char" where
  "digit_char n = decimal_digits ! (n mod 10)"

fun decimal_string :: "nat \<Rightarrow> string" where
  "decimal_string n =
     (if n < 10 then [digit_char n] else decimal_string (n div 10) @ [digit_char (n mod 10)])"

text \<open>
  The own enumerable properties that \<^verbatim>\<open>{...v}\<close> copies: those of an object, the
  characters of a string under their indices, nothing for the other values.
\<close>

fun spread :: "jsval \<Rightarrow> jsval js_object" where
  "spread (JObj ps) = ps"
| "spread (JStr s) = map (\<lambda>i. (decimal_string i, JStr [s ! i])) [0..<length s]"
| "spread v = []"

declare decimal_string.simps [simp del]

section \<open>The object graph: storages, buckets and files\<close>

text \<open>
  Files, buckets and storages are objects that handles alias, so they live in
  a store.  A reference is an address, \<^verbatim>\<open>new\<close> takes the next free address, and
  every field read goes through the store.
\<close>

datatype mockable =
  M_delete | M_exists | M_download | M_getSignedUrl | M_save | M_setMetadata | M_getMetadata

datatype MockableFileMockError = MockError (error: js_error)

record MockFile =
  name :: string
  bucket :: nat
  parent :: nat
  storage :: nat
  contents :: Buffer
  metadata :: jsval
  mockQueues :: "mockable \<Rightarrow> MockableFileMockError list"

text \<open>
  What a read of \<^verbatim>\<open>files[k]\<close> or of \<^verbatim>\<open>buckets[k]\<close> can find: an instance of the
  class for which the object is declared, or a truthy value of another kind, a
  function or an object come from a prototype.
\<close>

datatype 'r found = Instance 'r | Foreign

text \<open>
  The prototype of the object \<^verbatim>\<open>files\<close>: \<^verbatim>\<open>Object.prototype\<close> from its creation by
  \<^verbatim>\<open>{}\<close>, and a file once the assignment \<^verbatim>\<open>files['__proto__'] = file\<close> has run.
\<close>

datatype prototype = Object_prototype | File_instance nat

text \<open>
  A bucket: its fields, and in \<open>files_prototype\<close> the prototype of the object
  that the field \<^verbatim>\<open>files\<close> holds.
\<close>

record MockBucket =
  bucket_name :: string
  bucket_storage :: nat
  files :: "nat found js_object"
  files_prototype :: prototype

record MockStorage =
  buckets :: "nat js_object"

record world =
  storage_at :: "nat \<Rightarrow> MockStorage"
  bucket_at :: "nat \<Rightarrow> MockBucket"
  file_at :: "nat \<Rightarrow> MockFile"
  next_storage :: nat
  next_bucket :: nat
  next_file :: nat
  disk :: "string \<Rightarrow> Buffer option"

definition update_file :: "world \<Rightarrow> nat \<Rightarrow> (MockFile \<Rightarrow> MockFile) \<Rightarrow> world" where
  "update_file w f g = w\<lparr>file_at := (file_at w)(f := g (file_at w f))\<rparr>"

definition update_bucket :: "world \<Rightarrow> nat \<Rightarrow> (MockBucket \<Rightarrow> MockBucket) \<Rightarrow> world" where
  "update_bucket w b g = w\<lparr>bucket_at := (bucket_at w)(b := g (bucket_at w b))\<rparr>"

definition update_storage :: "world \<Rightarrow> nat \<Rightarrow> (MockStorage \<Rightarrow> MockStorage) \<Rightarrow> world" where
  "update_storage w s g = w\<lparr>storage_at := (storage_at w)(s := g (storage_at w s))\<rparr>"

subsection \<open>Constructors\<close>

definition default_metadata :: jsval where
  "default_metadata = JObj [(''metadata'', JObj [])]"

definition new_MockFile :: "world \<Rightarrow> nat \<Rightarrow> string \<Rightarrow> nat \<times> world" where
  "new_MockFile w b n =
     (next_file w,
      w\<lparr>file_at := (file_at w)(next_file w :=
           \<lparr>name = n, bucket = b, parent = b, storage = bucket_storage (bucket_at w b),
            contents = [], metadata = default_metadata, mockQueues = (\<lambda>m. [])\<rparr>),
        next_file := Suc (next_file w)\<rparr>)"

definition new_MockBucket :: "world \<Rightarrow> nat \<Rightarrow> string \<Rightarrow> nat \<times> world" where
  "new_MockBucket w s n =
     (next_bucket w,
      w\<lparr>bucket_at := (bucket_at w)(next_bucket w :=
           \<lparr>bucket_name = n, bucket_storage = s, files = [],
            files_prototype = Object_prototype\<rparr>),
        next_bucket := Suc (next_bucket w)\<rparr>)"

definition new_MockStorage :: "world \<Rightarrow> nat \<times> world" where
  "new_MockStorage w =
     (next_storage w,
      w\<lparr>storage_at := (storage_at w)(next_storage w := \<lparr>buckets = []\<rparr>),
        next_storage := Suc (next_storage w)\<rparr>)"

subsection \<open>Reading and assigning the files of a bucket\<close>

text \<open>
  The methods of the class MockFile, which an instance inherits from
  \<^verbatim>\<open>MockFile.prototype\<close>; its fields are its own properties.
\<close>

definition MockFile_methods :: "string list" where
  "MockFile_methods =
     [''constructor'', ''mustBeExists'', ''markAsExists'', ''mockReset'', ''mockErrorOnce'',
      ''delete'', ''exists'', ''setMetadata'', ''getMetadata'', ''getSignedUrl'',
      ''createReadStream'', ''createWriteStream'', ''download'', ''save'', ''copy'']"

text \<open>
  What the read \<^verbatim>\<open>files[k]\<close> of bucket \<open>b\<close> finds beyond the own properties, on
  the prototype chain.  \<open>None\<close> stands for \<^verbatim>\<open>undefined\<close> and for every other falsy
  value: the library only tests the value for truth, or calls a method on it.
  From \<^verbatim>\<open>Object.prototype\<close> come its methods, and itself under \<^verbatim>\<open>__proto__\<close>.  When
  the prototype is a file, \<^verbatim>\<open>__proto__\<close> gives this file, and the other keys its
  fields (a name is falsy when empty, the other fields hold objects, but for the
  metadata, of any type), then the methods of its class and of \<^verbatim>\<open>Object.prototype\<close>.
\<close>

definition inherited :: "world \<Rightarrow> nat \<Rightarrow> string \<Rightarrow> nat found option" where
  "inherited w b k =
     (case files_prototype (bucket_at w b) of
        Object_prototype \<Rightarrow> if k \<in> set Object_prototype_names then Some Foreign else None
      | File_instance p \<Rightarrow>
          if k = ''__proto__'' then Some (Instance p)
          else if k = ''name'' then (if name (file_at w p) = [] then None else Some Foreign)
          else if k = ''metadata''
            then (if truthy (metadata (file_at w p)) then Some Foreign else None)
          else if k \<in> set [''bucket'', ''parent'', ''storage'', ''contents'', ''mockQueues'']
                  \<or> k \<in> set MockFile_methods \<or> k \<in> set Object_prototype_names
            then Some Foreign
          else None)"

text \<open>The read \<^verbatim>\<open>files[k]\<close> of bucket \<open>b\<close>: the own property, else the inherited one.\<close>

definition files_at :: "world \<Rightarrow> nat \<Rightarrow> string \<Rightarrow> nat found option" where
  "files_at w b k =
     (case obj_get (files (bucket_at w b)) k of
        Some v \<Rightarrow> Some v
      | None \<Rightarrow> inherited w b k)"

text \<open>
  The assignment \<^verbatim>\<open>this.files[k] = v\<close>.  Under \<^verbatim>\<open>__proto__\<close> a file becomes the
  prototype; the only other value that the library assigns there is the
  prototype itself, which it has just read there, and which stays.
\<close>

definition files_assign :: "MockBucket \<Rightarrow> string \<Rightarrow> nat found \<Rightarrow> MockBucket" where
  "files_assign this k v =
     this\<lparr>files := assign_own (files this) k v,
          files_prototype :=
            (if k = ''__proto__'' \<and> obj_get (files this) k = None
             then (case v of Instance f \<Rightarrow> File_instance f | Foreign \<Rightarrow> files_prototype this)
             else files_prototype this)\<rparr>"

subsection \<open>MockFile\<close>

text \<open>The expression \<^verbatim>\<open>!!this.bucket.files[this.name]\<close>.\<close>

definition in_bucket :: "world \<Rightarrow> nat \<Rightarrow> bool" where
  "in_bucket w f = (files_at w (bucket (file_at w f)) (name (file_at w f)) \<noteq> None)"

definition mustBeExists :: "world \<Rightarrow> nat \<Rightarrow> js_error + unit" where
  "mustBeExists w f =
     (if in_bucket w f then Inr ()
      else Inl (Error (''No such file: '' @ bucket_name (bucket_at w (bucket (file_at w f)))
                        @ ''/'' @ name (file_at w f))))"

definition markAsExists :: "world \<Rightarrow> nat \<Rightarrow> world" where
  "markAsExists w f =
     (if in_bucket w f then w
      else update_bucket w (bucket (file_at w f))
             (\<lambda>b. files_assign b (name (file_at w f)) (Instance f)))"

text \<open>
  \<^verbatim>\<open>mockReset\<close> and \<^verbatim>\<open>mockErrorOnce\<close>.  The method is one of the seven keys of
  \<^verbatim>\<open>MockableFileQueues\<close>, each queue is an array, so the guard of
  \<^verbatim>\<open>mockErrorOnce\<close> against a method without a queue never fires.
\<close>

definition mockReset :: "world \<Rightarrow> nat \<Rightarrow> mockable option \<Rightarrow> world" where
  "mockReset w f m =
     (case m of
        Some k \<Rightarrow> update_file w f (\<lambda>this. this\<lparr>mockQueues := (mockQueues this)(k := [])\<rparr>)
      | None \<Rightarrow> update_file w f (\<lambda>this. this\<lparr>mockQueues := (\<lambda>k. [])\<rparr>))"

definition mockErrorOnce :: "world \<Rightarrow> nat \<Rightarrow> mockable \<Rightarrow> js_error \<Rightarrow> world" where
  "mockErrorOnce w f m e =
     update_file w f
       (\<lambda>this. this\<lparr>mockQueues := (mockQueues this)(m := mockQueues this m @ [MockError e])\<rparr>)"

text \<open>\<^verbatim>\<open>this.mockQueues.m.shift()\<close>: the head of the queue, removed, or \<^verbatim>\<open>undefined\<close>.\<close>

definition shift_queue :: "world \<Rightarrow> nat \<Rightarrow> mockable \<Rightarrow> MockableFileMockError option \<times> world" where
  "shift_queue w f m =
     (case mockQueues (file_at w f) m of
        [] \<Rightarrow> (None, w)
      | v # q \<Rightarrow>
          (Some v, update_file w f (\<lambda>this. this\<lparr>mockQueues := (mockQueues this)(m := q)\<rparr>)))"

definition delete :: "world \<Rightarrow> nat \<Rightarrow> (js_error + unit) \<times> world" where
  "delete w f =
     (case shift_queue w f M_delete of
        (Some mockValue, w1) \<Rightarrow> (Inl (error mockValue), w1)
      | (None, w1) \<Rightarrow>
          (case mustBeExists w1 f of
             Inl e \<Rightarrow> (Inl e, w1)
           | Inr u \<Rightarrow>
               (Inr (),
                update_bucket w1 (bucket (file_at w1 f))
                  (\<lambda>b. b\<lparr>files := obj_delete (files b) (name (file_at w1 f))\<rparr>))))"

definition exists :: "world \<Rightarrow> nat \<Rightarrow> (js_error + bool) \<times> world" where
  "exists w f =
     (case shift_queue w f M_exists of
        (Some mockValue, w1) \<Rightarrow> (Inl (error mockValue), w1)
      | (None, w1) \<Rightarrow> (Inr (in_bucket w1 f), w1))"

definition setMetadata :: "world \<Rightarrow> nat \<Rightarrow> jsval \<Rightarrow> (js_error + jsval) \<times> world" where
  "setMetadata w f md =
     (case shift_queue w f M_setMetadata of
        (Some mockValue, w1) \<Rightarrow> (Inl (error mockValue), w1)
      | (None, w1) \<Rightarrow>
          (case mustBeExists w1 f of
             Inl e \<Rightarrow> (Inl e, w1)
           | Inr u \<Rightarrow>
               (case prop_metadata (metadata (file_at w1 f)) of
                  Inl e \<Rightarrow> (Inl e, w1)
                | Inr old_custom \<Rightarrow>
                    (case prop_metadata md of
                       Inl e \<Rightarrow> (Inl e, w1)
                     | Inr new_custom \<Rightarrow>
                         (let customMetadata =
                                assign_props (assign_props [] (spread old_custom)) (spread new_custom);
                              merged =
                                JObj (obj_set
                                        (assign_props
                                           (assign_props [] (spread (metadata (file_at w1 f))))
                                           (spread md))
                                        ''metadata'' (JObj customMetadata))
                          in (Inr merged, update_file w1 f (\<lambda>this. this\<lparr>metadata := merged\<rparr>)))))))"

definition getMetadata :: "world \<Rightarrow> nat \<Rightarrow> (js_error + jsval) \<times> world" where
  "getMetadata w f =
     (case shift_queue w f M_getMetadata of
        (Some mockValue, w1) \<Rightarrow> (Inl (error mockValue), w1)
      | (None, w1) \<Rightarrow>
          (case mustBeExists w1 f of
             Inl e \<Rightarrow> (Inl e, w1)
           | Inr u \<Rightarrow> (Inr (metadata (file_at w1 f)), w1)))"

definition getSignedUrl :: "world \<Rightarrow> nat \<Rightarrow> (js_error + string) \<times> world" where
  "getSignedUrl w f =
     (case shift_queue w f M_getSignedUrl of
        (Some mockValue, w1) \<Rightarrow> (Inl (error mockValue), w1)
      | (None, w1) \<Rightarrow>
          (case mustBeExists w1 f of
             Inl e \<Rightarrow> (Inl e, w1)
           | Inr u \<Rightarrow>
               (Inr (''https://storage.googleapis.com/''
                       @ bucket_name (bucket_at w1 (bucket (file_at w1 f))) @ ''/''
                       @ name (file_at w1 f) @ ''?X-Goog-Algorithm=MOCKED''),
                w1)))"

text \<open>\<^verbatim>\<open>createReadStream\<close>: the result is the bytes that the stream will deliver.\<close>

definition createReadStream :: "world \<Rightarrow> nat \<Rightarrow> js_error + Buffer" where
  "createReadStream w f =
     (case mustBeExists w f of
        Inl e \<Rightarrow> Inl e
      | Inr u \<Rightarrow> Inr (contents (file_at w f)))"



text \<open>
  \<^verbatim>\<open>download\<close>: \<open>destination\<close> is \<^verbatim>\<open>options?.destination\<close>, and
  \<^verbatim>\<open>writeFileSync\<close> stores the bytes under that path.
\<close>

definition download :: "world \<Rightarrow> nat \<Rightarrow> string option \<Rightarrow> (js_error + Buffer) \<times> world" where
  "download w f destination =
     (case shift_queue w f M_download of
        (Some mockValue, w1) \<Rightarrow> (Inl (error mockValue), w1)
      | (None, w1) \<Rightarrow>
          (case mustBeExists w1 f of
             Inl e \<Rightarrow> (Inl e, w1)
           | Inr u \<Rightarrow>
               (Inr (contents (file_at w1 f)),
                (case destination of
                   None \<Rightarrow> w1
                 | Some d \<Rightarrow>
                     if d = [] then w1
                     else w1\<lparr>disk := (disk w1)(d \<mapsto> contents (file_at w1 f))\<rparr>))))"

datatype data = DataString string | DataBuffer Buffer

definition Buffer_from :: "string \<Rightarrow> Buffer" where
  "Buffer_from s = s"

definition to_Buffer :: "data \<Rightarrow> Buffer" where
  "to_Buffer d = (case d of DataBuffer b \<Rightarrow> b | DataString s \<Rightarrow> Buffer_from s)"

text \<open>
  The read \<^verbatim>\<open>options?.metadata\<close> of an options argument, \<^verbatim>\<open>undefined\<close> when the
  options are \<^verbatim>\<open>undefined\<close> or \<^verbatim>\<open>null\<close>.
\<close>

definition optional_metadata :: "jsval \<Rightarrow> jsval" where
  "optional_metadata options = (case prop_metadata options of Inl e \<Rightarrow> JUndefined | Inr v \<Rightarrow> v)"

definition save :: "world \<Rightarrow> nat \<Rightarrow> data \<Rightarrow> jsval \<Rightarrow> (js_error + unit) \<times> world" where
  "save w f d options =
     (case shift_queue w f M_save of
        (Some mockValue, w1) \<Rightarrow> (Inl (error mockValue), w1)
      | (None, w1) \<Rightarrow>
          (let w2 = markAsExists w1 f;
               w3 = (if truthy (optional_metadata options)
                     then update_file w2 f
                            (\<lambda>this. this\<lparr>metadata := optional_metadata options\<rparr>)
                     else w2)
           in (Inr (), update_file w3 f (\<lambda>this. this\<lparr>contents := to_Buffer d\<rparr>))))"

subsection \<open>MockBucket and MockStorage\<close>

text \<open>
  \<^verbatim>\<open>file(name, options, forceExists)\<close>: what \<^verbatim>\<open>this.files[name]\<close> holds when this is
  truthy, a file or not, and a new file otherwise.
\<close>

definition file_of :: "world \<Rightarrow> nat \<Rightarrow> string \<Rightarrow> bool \<Rightarrow> nat found \<times> world" where
  "file_of w b n forceExists =
     (case (case files_at w b n of
              Some v \<Rightarrow> (v, w)
            | None \<Rightarrow> (case new_MockFile w b n of (f, w0) \<Rightarrow> (Instance f, w0))) of
        (v, w1) \<Rightarrow>
          (v, if forceExists
              then update_bucket w1 b (\<lambda>this. files_assign this n v)
              else w1))"

text \<open>
  A method of MockFile can be called on a file only: on any other value the
  call is a TypeError, whose message names the call.
\<close>

definition the_file :: "nat found option \<Rightarrow> nat option" where
  "the_file v = (case v of Some (Instance f) \<Rightarrow> Some f | Some Foreign \<Rightarrow> None | None \<Rightarrow> None)"

definition not_a_method :: "string \<Rightarrow> js_error" where
  "not_a_method callee = TypeError (callee @ '' is not a function'')"

text \<open>
  \<^verbatim>\<open>put\<close> reads \<^verbatim>\<open>this.files[name]\<close> back at each use, also for its result.  A
  string is truthy when it is not empty, a \<^verbatim>\<open>Buffer\<close> always.
\<close>

definition data_truthy :: "data option \<Rightarrow> bool" where
  "data_truthy c =
     (case c of
        None \<Rightarrow> False
      | Some (DataString s) \<Rightarrow> s \<noteq> []
      | Some (DataBuffer b) \<Rightarrow> True)"

definition put :: "world \<Rightarrow> nat \<Rightarrow> string \<Rightarrow> data option \<Rightarrow> jsval \<Rightarrow> (js_error + nat found option) \<times> world" where
  "put w b n c md =
     (case new_MockFile w b n of
        (f, w0) \<Rightarrow>
          (let w1 = update_bucket w0 b (\<lambda>this. files_assign this n (Instance f)) in
           case (if data_truthy c
                 then (case (the_file (files_at w1 b n), c) of
                         (Some g, Some d) \<Rightarrow> save w1 g d JUndefined
                       | _ \<Rightarrow> (Inl (not_a_method ''this.files[name].save''), w1))
                 else (Inr (), w1)) of
             (Inl e, w2) \<Rightarrow> (Inl e, w2)
           | (Inr u, w2) \<Rightarrow>
               (case (if truthy md
                      then (case the_file (files_at w2 b n) of
                              Some g \<Rightarrow> setMetadata w2 g md
                            | None \<Rightarrow> (Inl (not_a_method ''this.files[name].setMetadata''), w2))
                      else (Inr JUndefined, w2)) of
                  (Inl e, w3) \<Rightarrow> (Inl e, w3)
                | (Inr v, w3) \<Rightarrow> (Inr (files_at w3 b n), w3))))"

text \<open>
  \<^verbatim>\<open>getFiles\<close>: \<open>query_prefix\<close> is \<^verbatim>\<open>query?.prefix\<close>, and \<^verbatim>\<open>Object.entries\<close> gives the
  own properties.  The promise is always resolved.
\<close>

definition startsWith :: "string \<Rightarrow> string \<Rightarrow> bool" where
  "startsWith s p = (take (length p) s = p)"

definition getFiles :: "world \<Rightarrow> nat \<Rightarrow> string option \<Rightarrow> nat found list" where
  "getFiles w b query_prefix =
     (let p = (case query_prefix of None \<Rightarrow> [] | Some q \<Rightarrow> q)
      in map snd (filter (\<lambda>entry. startsWith (fst entry) p) (files (bucket_at w b))))"

text \<open>
  The read \<^verbatim>\<open>buckets[k]\<close> of storage \<open>s\<close>.  The object \<^verbatim>\<open>buckets\<close> keeps the
  prototype \<^verbatim>\<open>Object.prototype\<close>: the library assigns to it only under a key at
  which it has read \<^verbatim>\<open>undefined\<close>, which \<^verbatim>\<open>__proto__\<close> never gives.
\<close>

definition buckets_at :: "world \<Rightarrow> nat \<Rightarrow> string \<Rightarrow> nat found option" where
  "buckets_at w s k =
     (case obj_get (buckets (storage_at w s)) k of
        Some b \<Rightarrow> Some (Instance b)
      | None \<Rightarrow> if k \<in> set Object_prototype_names then Some Foreign else None)"

text \<open>\<^verbatim>\<open>MockStorage.bucket\<close>: the result is \<^verbatim>\<open>this.buckets[name]\<close>, read after the check.\<close>

definition bucket_of :: "world \<Rightarrow> nat \<Rightarrow> string \<Rightarrow> nat found option \<times> world" where
  "bucket_of w s n =
     (let w1 = (case buckets_at w s n of
                  None \<Rightarrow>
                    (case new_MockBucket w s n of
                       (b, w0) \<Rightarrow>
                         update_storage w0 s
                           (\<lambda>this. this\<lparr>buckets := assign_own (buckets this) n b\<rparr>))
                | Some v \<Rightarrow> w)
      in (buckets_at w1 s n, w1))"

subsection \<open>MockFile.copy\<close>

text \<open>
  The destination: a string, a bucket, a file, or another object, one without a
  \<^verbatim>\<open>name\<close>.  The type of the parameter has the first three; values that are not
  objects, on which the \<^verbatim>\<open>in\<close> operator throws, are not modelled.  When
  \<^verbatim>\<open>targetBucket.file\<close> returns a value that is not a file, the call of \<^verbatim>\<open>save\<close> on it
  is a TypeError.
\<close>

datatype destination = ToName string | ToBucket nat | ToFile nat | ToOther

definition copy_target :: "world \<Rightarrow> nat \<Rightarrow> destination \<Rightarrow> js_error + nat \<times> string" where
  "copy_target w f dest =
     (case dest of
        ToName s \<Rightarrow> Inr (bucket (file_at w f), s)
      | ToBucket b \<Rightarrow> Inr (b, name (file_at w f))
      | ToFile g \<Rightarrow> Inr (bucket (file_at w g), name (file_at w g))
      | ToOther \<Rightarrow> Inl (Error ''Invalid destination type''))"

definition copy :: "world \<Rightarrow> nat \<Rightarrow> destination \<Rightarrow> jsval \<Rightarrow> (js_error + nat \<times> jsval) \<times> world" where
  "copy w f dest options =
     (case copy_target w f dest of
        Inl e \<Rightarrow> (Inl e, w)
      | Inr (targetBucket, targetFileName) \<Rightarrow>
          (case download w f None of
             (Inl e, w1) \<Rightarrow> (Inl e, w1)
           | (Inr c, w1) \<Rightarrow>
               (case getMetadata w1 f of
                  (Inl e, w2) \<Rightarrow> (Inl e, w2)
                | (Inr md, w2) \<Rightarrow>
                    (let newMetadata =
                           JObj (assign_props (assign_props [] (spread md))
                                   (spread (optional_metadata options)))
                     in case file_of w2 targetBucket targetFileName False of
                          (Foreign, w3) \<Rightarrow> (Inl (not_a_method ''newFile.save''), w3)
                        | (Instance newFile, w3) \<Rightarrow>
                            (case save w3 newFile (DataBuffer c)
                                    (JObj [(''metadata'', newMetadata)]) of
                               (Inl e, w4) \<Rightarrow> (Inl e, w4)
                             | (Inr u, w4) \<Rightarrow> (Inr (newFile, newMetadata), w4))))))"

subsection \<open>The seven mockable methods as one call\<close>

datatype call =
    Delete
  | Exists
  | Download "string option"
  | GetSignedUrl
  | Save data jsval
  | SetMetadata jsval
  | GetMetadata

datatype response =
    Deleted
  | Existence bool
  | Downloaded Buffer
  | SignedUrl string
  | Saved
  | Metadata jsval

fun method_of :: "call \<Rightarrow> mockable" where
  "method_of Delete = M_delete"
| "method_of Exists = M_exists"
| "method_of (Download d) = M_download"
| "method_of GetSignedUrl = M_getSignedUrl"
| "method_of (Save d m) = M_save"
| "method_of (SetMetadata m) = M_setMetadata"
| "method_of GetMetadata = M_getMetadata"

definition respond :: "('a \<Rightarrow> response) \<Rightarrow> (js_error + 'a) \<times> world \<Rightarrow> (js_error + response) \<times> world" where
  "respond g r = (case r of (Inl e, w) \<Rightarrow> (Inl e, w) | (Inr x, w) \<Rightarrow> (Inr (g x), w))"

fun invoke :: "world \<Rightarrow> nat \<Rightarrow> call \<Rightarrow> (js_error + response) \<times> world" where
  "invoke w f Delete = respond (\<lambda>u. Deleted) (delete w f)"
| "invoke w f Exists = respond Existence (exists w f)"
| "invoke w f (Download d) = respond Downloaded (download w f d)"
| "invoke w f GetSignedUrl = respond SignedUrl (getSignedUrl w f)"
| "invoke w f (Save d m) = respond (\<lambda>u. Saved) (save w f d m)"
| "invoke w f (SetMetadata m) = respond Metadata (setMetadata w f m)"
| "invoke w f GetMetadata = respond Metadata (getMetadata w f)"

text \<open>Calling the same method \<open>n\<close> times in a row: the outcomes, and the final state.\<close>

fun invoke_times :: "nat \<Rightarrow> world \<Rightarrow> nat \<Rightarrow> call \<Rightarrow> (js_error + response) list \<times> world" where
  "invoke_times 0 w f c = ([], w)"
| "invoke_times (Suc n) w f c =
     (case invoke w f c of
        (r, w1) \<Rightarrow> (case invoke_times n w1 f c of (rs, w2) \<Rightarrow> (r # rs, w2)))"

subsection \<open>MockBucket.deleteFiles\<close>

text \<open>
  Modelled from the spec: \<^verbatim>\<open>deleteFiles\<close> is called by the tests of MockBucket
  but its body is not part of the sources at hand.  The spec says that it removes
  every member object whose name starts with the prefix filter (an empty filter
  meaning all members) from the membership mapping, and that it does not fail if
  no object matches.  \<open>query_prefix\<close> is \<^verbatim>\<open>query?.prefix\<close>, read as \<^verbatim>\<open>getFiles\<close> reads it.
\<close>

definition deleteFiles :: "world \<Rightarrow> nat \<Rightarrow> string option \<Rightarrow> world" where
  "deleteFiles w b query_prefix =
     (let p = (case query_prefix of None \<Rightarrow> [] | Some q \<Rightarrow> q)
      in update_bucket w b
           (\<lambda>this. this\<lparr>files := filter (\<lambda>entry. \<not> startsWith (fst entry) p) (files this)\<rparr>))"

section \<open>Notions used by the properties\<close>

text \<open>Removing the head of the queue of method \<open>m\<close> of file \<open>f\<close>, and nothing else.\<close>

definition consume :: "world \<Rightarrow> nat \<Rightarrow> mockable \<Rightarrow> world" where
  "consume w f m =
     update_file w f
       (\<lambda>this. this\<lparr>mockQueues := (mockQueues this)(m := tl (mockQueues this m))\<rparr>)"

text \<open>The prefix \<^verbatim>\<open>query?.prefix || ''\<close> of a query.\<close>

definition the_prefix :: "string option \<Rightarrow> string" where
  "the_prefix q = (case q of None \<Rightarrow> [] | Some p \<Rightarrow> p)"


text \<open>The top-level merge \<^verbatim>\<open>{...a, ...b}\<close> and the metadata that \<^verbatim>\<open>setMetadata\<close> computes.\<close>

definition merge_top :: "jsval \<Rightarrow> jsval \<Rightarrow> jsval js_object" where
  "merge_top a b = assign_props (assign_props [] (spread a)) (spread b)"

definition custom_of :: "jsval \<Rightarrow> jsval" where
  "custom_of v = (case prop_metadata v of Inl e \<Rightarrow> JUndefined | Inr c \<Rightarrow> c)"

definition merged_metadata :: "jsval \<Rightarrow> jsval \<Rightarrow> jsval" where
  "merged_metadata old md =
     JObj (obj_set (merge_top old md) ''metadata''
             (JObj (merge_top (custom_of old) (custom_of md))))"

text \<open>A value has each of its keys once, as an object does.\<close>

definition well_formed :: "jsval \<Rightarrow> bool" where
  "well_formed v = distinct (map fst (spread v))"

text \<open>The lookup in \<open>b\<close> first, then in \<open>a\<close>: what a key-by-key overwrite of \<open>a\<close> by \<open>b\<close> gives.\<close>

definition overwrite :: "'v js_object \<Rightarrow> 'v js_object \<Rightarrow> string \<Rightarrow> 'v option" where
  "overwrite a b k = (case obj_get b k of Some v \<Rightarrow> Some v | None \<Rightarrow> obj_get a k)"

text \<open>
  A name is ordinary for a bucket when the read of the files under it finds an
  own property or nothing: the files object has the prototype of its creation,
  and this prototype has no property of the name.
\<close>

definition ordinary :: "world \<Rightarrow> nat \<Rightarrow> string \<Rightarrow> bool" where
  "ordinary w b k =
     (files_prototype (bucket_at w b) = Object_prototype \<and> k \<notin> set Object_prototype_names)"

text \<open>
  A files object starts empty and changes by assignments and deletes only.
  \<open>replay\<close> runs such a history on the own properties; \<open>created\<close> is the list
  of the keys in the order of their creation, an assignment under \<^verbatim>\<open>__proto__\<close>
  creating none.
\<close>

datatype 'v change = Assign string 'v | Remove string

fun replay :: "'v change list \<Rightarrow> 'v js_object \<Rightarrow> 'v js_object" where
  "replay [] ps = ps"
| "replay (Assign k v # cs) ps = replay cs (assign_own ps k v)"
| "replay (Remove k # cs) ps = replay cs (obj_delete ps k)"

fun created :: "'v change list \<Rightarrow> string list \<Rightarrow> string list" where
  "created [] ks = ks"
| "created (Assign k v # cs) ks =
     created cs (if k \<in> set ks \<or> k = ''__proto__'' then ks else ks @ [k])"
| "created (Remove k # cs) ks = created cs (removeAll k ks)"

definition other_key :: "string \<Rightarrow> bool" where
  "other_key k = (\<not> is_array_index k)"

text \<open>
  The order of enumeration: a key that is an array index is preceded by array
  indices only, of smaller or equal value.
\<close>

definition key_before :: "string \<Rightarrow> string \<Rightarrow> bool" where
  "key_before k k' =
     (if is_array_index k' then is_array_index k \<and> numeric_value k \<le> numeric_value k'
      else True)"

text \<open>
  The keys of the object \<open>ps\<close> are those of the list \<open>ks\<close>, in the order of
  enumeration: array indices first and ascending, the others as in \<open>ks\<close>.
\<close>

definition keys_follow :: "'v js_object \<Rightarrow> string list \<Rightarrow> bool" where
  "keys_follow ps ks \<longleftrightarrow>
     sorted_wrt key_before (map fst ps) \<and> distinct (map fst ps)
     \<and> filter other_key (map fst ps) = filter other_key ks
     \<and> set (map fst ps) = set ks"

text \<open>The names under which a bucket holds files, as \<^verbatim>\<open>Object.keys\<close> lists them.\<close>

definition member_names :: "world \<Rightarrow> nat \<Rightarrow> string list" where
  "member_names w b = map fst (files (bucket_at w b))"

section \<open>Concrete states\<close>

text \<open>
  An empty store, and the state in which the tests of MockFile start: one
  storage, the bucket \<^verbatim>\<open>test-bucket\<close> and the file \<^verbatim>\<open>test-file.txt\<close>, forced to exist.
\<close>

definition empty_world :: world where
  "empty_world =
     \<lparr>storage_at = (\<lambda>a. \<lparr>buckets = []\<rparr>),
      bucket_at = (\<lambda>a. \<lparr>bucket_name = [], bucket_storage = 0, files = [],
                         files_prototype = Object_prototype\<rparr>),
      file_at = (\<lambda>a. \<lparr>name = [], bucket = 0, parent = 0, storage = 0, contents = [],
                       metadata = JUndefined, mockQueues = (\<lambda>m. [])\<rparr>),
      next_storage = 0, next_bucket = 0, next_file = 0, disk = (\<lambda>p. None)\<rparr>"

definition bucket_world :: world where
  "bucket_world = snd (bucket_of (snd (new_MockStorage empty_world)) 0 ''test-bucket'')"

definition test_world :: world where
  "test_world = snd (file_of bucket_world 0 ''test-file.txt'' True)"


text \<open>Two lookups in a row of the file \<^verbatim>\<open>my-file.txt\<close>, which is not in the bucket.\<close>

definition first_lookup :: "nat found \<times> world" where
  "first_lookup = file_of bucket_world 0 ''my-file.txt'' False"

definition second_lookup :: "nat found \<times> world" where
  "second_lookup = file_of (snd first_lookup) 0 ''my-file.txt'' False"

text \<open>
  The bucket of the tests of \<^verbatim>\<open>getFiles\<close> and \<^verbatim>\<open>deleteFiles\<close>: three files put one
  after the other.
\<close>

definition three_files :: world where
  "three_files =
     snd (put (snd (put (snd (put bucket_world 0 ''test-1'' None JUndefined))
                      0 ''test-2'' None JUndefined))
            0 ''nn-test-3'' None JUndefined)"

text \<open>The bucket after \<^verbatim>\<open>put\<close> of the file \<^verbatim>\<open>2\<close>, then of the file \<^verbatim>\<open>1\<close>.\<close>

definition two_numbered :: world where
  "two_numbered =
     snd (put (snd (put bucket_world 0 ''2'' None JUndefined)) 0 ''1'' None JUndefined)"

text \<open>
  The file of the tests after \<^verbatim>\<open>setMetadata({a: 1})\<close> and \<^verbatim>\<open>setMetadata({b: 2})\<close>, then
  after \<^verbatim>\<open>save(data, {metadata: {c: 3}})\<close>; and after \<^verbatim>\<open>setMetadata({metadata: {a: 1}})\<close>.
\<close>

definition merged_twice :: world where
  "merged_twice =
     snd (setMetadata (snd (setMetadata test_world 0 (JObj [(''a'', JNum 1)]))) 0
            (JObj [(''b'', JNum 2)]))"

definition saved_over :: world where
  "saved_over =
     snd (save merged_twice 0 (DataString ''data'') (JObj [(''metadata'', JObj [(''c'', JNum 3)])]))"

definition custom_once :: world where
  "custom_once = snd (setMetadata test_world 0 (JObj [(''metadata'', JObj [(''a'', JNum 1)])]))"





text \<open>
  The files objects that the library can produce: built from the empty object
  by assignments and deletes.
\<close>

definition built :: "'v js_object \<Rightarrow> bool" where
  "built ps = (\<exists>cs. ps = replay cs [])"

definition all_built :: "world \<Rightarrow> bool" where
  "all_built w = (\<forall>b. built (files (bucket_at w b)))"

section \<open>Basic facts about the fault queues\<close>

lemma queue_upd_same:
  "mockQueues this m = q \<Longrightarrow> this\<lparr>mockQueues := (mockQueues this)(m := q)\<rparr> = this"
  by (cases this) auto

lemma consume_empty: "mockQueues (file_at w f) m = [] \<Longrightarrow> consume w f m = w"
  by (simp add: consume_def update_file_def queue_upd_same)

lemma shift_queue_eq:
  "shift_queue w f m =
     (case mockQueues (file_at w f) m of [] \<Rightarrow> None | v # q \<Rightarrow> Some v, consume w f m)"
  by (cases "mockQueues (file_at w f) m")
     (simp_all add: shift_queue_def consume_def update_file_def queue_upd_same)

lemma shift_queue_empty: "mockQueues (file_at w f) m = [] \<Longrightarrow> shift_queue w f m = (None, w)"
  by (simp add: shift_queue_def)

lemma shift_queue_head:
  "mockQueues (file_at w f) m = MockError x # q \<Longrightarrow>
   shift_queue w f m = (Some (MockError x), consume w f m)"
  by (simp add: shift_queue_eq)

lemma consume_fields [simp]:
  "bucket_at (consume w f m) = bucket_at w"
  "storage_at (consume w f m) = storage_at w"
  "disk (consume w f m) = disk w"
  "next_file (consume w f m) = next_file w"
  "name (file_at (consume w f m) g) = name (file_at w g)"
  "bucket (file_at (consume w f m) g) = bucket (file_at w g)"
  "contents (file_at (consume w f m) g) = contents (file_at w g)"
  "metadata (file_at (consume w f m) g) = metadata (file_at w g)"
  by (simp_all add: consume_def update_file_def)

lemma respond_pair: "respond g (a, v) = (map_sum id g a, v)"
  by (cases a) (simp_all add: respond_def)

lemma respond_sel: "fst (respond g r) = map_sum id g (fst r)" "snd (respond g r) = snd r"
  by (cases r; simp add: respond_pair)+

lemma respond_Inl: "respond g r = (Inl e, w') \<longleftrightarrow> r = (Inl e, w')"
  by (cases r; cases "fst r") (auto simp: respond_def)

subsection \<open>A failed call\<close>

lemma delete_fails: "delete w f = (Inl e, w') \<Longrightarrow> w' = consume w f M_delete"
  by (auto simp: delete_def shift_queue_eq split: list.splits sum.splits)

lemma exists_fails: "exists w f = (Inl e, w') \<Longrightarrow> w' = consume w f M_exists"
  by (auto simp: exists_def shift_queue_eq split: list.splits)

lemma download_fails: "download w f d = (Inl e, w') \<Longrightarrow> w' = consume w f M_download"
  by (auto simp: download_def shift_queue_eq split: list.splits sum.splits)

lemma getSignedUrl_fails: "getSignedUrl w f = (Inl e, w') \<Longrightarrow> w' = consume w f M_getSignedUrl"
  by (auto simp: getSignedUrl_def shift_queue_eq split: list.splits sum.splits)

lemma save_fails: "save w f d om = (Inl e, w') \<Longrightarrow> w' = consume w f M_save"
  by (auto simp: save_def shift_queue_eq Let_def split: list.splits)

lemma save_fails_queue: "save w f d om = (Inl e, w') \<Longrightarrow> mockQueues (file_at w f) M_save \<noteq> []"
  by (auto simp: save_def shift_queue_eq Let_def split: list.splits)

lemma setMetadata_fails: "setMetadata w f md = (Inl e, w') \<Longrightarrow> w' = consume w f M_setMetadata"
  by (auto simp: setMetadata_def shift_queue_eq Let_def split: list.splits sum.splits)

lemma getMetadata_fails: "getMetadata w f = (Inl e, w') \<Longrightarrow> w' = consume w f M_getMetadata"
  by (auto simp: getMetadata_def shift_queue_eq split: list.splits sum.splits)

lemma invoke_fails: "invoke w f c = (Inl e, w') \<Longrightarrow> w' = consume w f (method_of c)"
  by (cases c)
     (simp_all add: respond_Inl delete_fails exists_fails download_fails getSignedUrl_fails
        save_fails setMetadata_fails getMetadata_fails)

lemma download_succeeds: "download w f None = (Inr c, w') \<Longrightarrow> w' = w \<and> c = contents (file_at w f) \<and> in_bucket w f"
  by (auto simp: download_def shift_queue_def mustBeExists_def split: list.splits sum.splits if_splits)

lemma getMetadata_succeeds: "getMetadata w f = (Inr md, w') \<Longrightarrow> w' = w \<and> md = metadata (file_at w f) \<and> in_bucket w f"
  by (auto simp: getMetadata_def shift_queue_def mustBeExists_def split: list.splits sum.splits if_splits)

lemma file_of_cases:
  "file_of w b n False = (v, w') \<Longrightarrow>
   (files_at w b n = Some v \<and> w' = w) \<or>
   (files_at w b n = None \<and> v = Instance (next_file w) \<and> w' = snd (new_MockFile w b n))"
  by (auto simp: file_of_def new_MockFile_def split: option.splits)

lemma new_MockFile_queue: "mockQueues (file_at (snd (new_MockFile w b n)) (next_file w)) m = []"
  by (simp add: new_MockFile_def)

lemma copy_fails:
  assumes "copy w f dest om = (Inl e, w')"
  shows "w' = w \<or> (\<exists>g m. w' = consume w g m)"
proof (cases "copy_target w f dest")
  case (Inl a)
  with assms show ?thesis by (simp add: copy_def)
next
  case (Inr t)
  obtain tb tn where t: "t = (tb, tn)" by (cases t)
  obtain r1 w1 where d: "download w f None = (r1, w1)" by (cases "download w f None")
  show ?thesis
  proof (cases r1)
    case (Inl a)
    with assms Inr t d have "w' = w1" by (simp add: copy_def)
    with d Inl show ?thesis using download_fails by blast
  next
    case c: (Inr c)
    with d have w1: "w1 = w" using download_succeeds by blast
    obtain r2 w2 where g: "getMetadata w f = (r2, w2)" by (cases "getMetadata w f")
    show ?thesis
    proof (cases r2)
      case (Inl a)
      with assms Inr t d c w1 g have "w' = w2" by (simp add: copy_def)
      with g Inl show ?thesis using getMetadata_fails by blast
    next
      case m: (Inr md)
      with g have w2: "w2 = w" using getMetadata_succeeds by blast
      obtain v w3 where fo: "file_of w tb tn False = (v, w3)" by (cases "file_of w tb tn False")
      show ?thesis
      proof (cases v)
        case Foreign
        with assms Inr t d c w1 g m w2 fo have "w' = w3"
          by (simp add: copy_def Let_def)
        moreover from file_of_cases [OF fo] Foreign have "w3 = w"
          by auto
        ultimately show ?thesis by simp
      next
        case (Instance nf)
        let ?nm = "JObj [(''metadata'',
                          JObj (assign_props (assign_props [] (spread md))
                                  (spread (optional_metadata om))))]"
        obtain r4 w4 where sv: "save w3 nf (DataBuffer c) ?nm = (r4, w4)"
          by (cases "save w3 nf (DataBuffer c) ?nm")
        from assms Inr t d c w1 g m w2 fo Instance sv have r4: "r4 = Inl e" and w4: "w4 = w'"
          by (auto simp: copy_def Let_def split: sum.splits)
        from sv r4 have q: "mockQueues (file_at w3 nf) M_save \<noteq> []"
          and c4: "w4 = consume w3 nf M_save"
          using save_fails_queue save_fails by blast+
        from file_of_cases [OF fo] Instance q have "w3 = w"
          by (auto simp: new_MockFile_queue)
        with c4 w4 show ?thesis by blast
      qed
    qed
  qed
qed

lemma download_head:
  "mockQueues (file_at w f) M_download = MockError x # q \<Longrightarrow>
   download w f d = (Inl x, consume w f M_download)"
  by (simp add: download_def shift_queue_head)

lemma save_head:
  "mockQueues (file_at w f) M_save = MockError x # q \<Longrightarrow>
   save w f d om = (Inl x, consume w f M_save)"
  by (simp add: save_def shift_queue_head)

subsection \<open>Enqueuing an error for one method and calling another\<close>

lemma inherited_cong:
  "files_prototype (bucket_at w' b) = files_prototype (bucket_at w b) \<Longrightarrow>
   (\<And>p. name (file_at w' p) = name (file_at w p)) \<Longrightarrow>
   (\<And>p. truthy (metadata (file_at w' p)) = truthy (metadata (file_at w p))) \<Longrightarrow>
   inherited w' b k = inherited w b k"
  by (simp add: inherited_def split: prototype.splits)

lemma files_at_cong:
  "bucket_at w' = bucket_at w \<Longrightarrow>
   (\<And>p. name (file_at w' p) = name (file_at w p)) \<Longrightarrow>
   (\<And>p. truthy (metadata (file_at w' p)) = truthy (metadata (file_at w p))) \<Longrightarrow>
   files_at w' b k = files_at w b k"
  by (simp add: files_at_def inherited_cong [where w' = w' and w = w] split: option.splits)

lemma in_bucket_cong:
  "bucket_at w' = bucket_at w \<Longrightarrow>
   (\<And>p. name (file_at w' p) = name (file_at w p)) \<Longrightarrow>
   (\<And>p. truthy (metadata (file_at w' p)) = truthy (metadata (file_at w p))) \<Longrightarrow>
   bucket (file_at w' f) = bucket (file_at w f) \<Longrightarrow> in_bucket w' f = in_bucket w f"
  by (simp add: in_bucket_def files_at_cong [where w' = w' and w = w])

lemma files_at_mockErrorOnce [simp]: "files_at (mockErrorOnce w f m e) b k = files_at w b k"
  by (rule files_at_cong) (simp_all add: mockErrorOnce_def update_file_def)

lemma in_bucket_mockErrorOnce [simp]: "in_bucket (mockErrorOnce w f m e) g = in_bucket w g"
  by (rule in_bucket_cong) (simp_all add: mockErrorOnce_def update_file_def)

lemma mustBeExists_mockErrorOnce [simp]: "mustBeExists (mockErrorOnce w f m e) g = mustBeExists w g"
  by (simp add: mustBeExists_def) (simp add: mockErrorOnce_def update_file_def)

lemma mockErrorOnce_fields [simp]:
  "bucket_at (mockErrorOnce w f m e) = bucket_at w"
  "disk (mockErrorOnce w f m e) = disk w"
  "name (file_at (mockErrorOnce w f m e) g) = name (file_at w g)"
  "bucket (file_at (mockErrorOnce w f m e) g) = bucket (file_at w g)"
  "contents (file_at (mockErrorOnce w f m e) g) = contents (file_at w g)"
  "metadata (file_at (mockErrorOnce w f m e) g) = metadata (file_at w g)"
  by (simp_all add: mockErrorOnce_def update_file_def)

lemma mockErrorOnce_queue:
  "mockQueues (file_at (mockErrorOnce w f m e) f) k =
     (if k = m then mockQueues (file_at w f) m @ [MockError e] else mockQueues (file_at w f) k)"
  by (simp add: mockErrorOnce_def update_file_def)

lemma consume_mockErrorOnce:
  "k \<noteq> m \<Longrightarrow> consume (mockErrorOnce w f m e) f k = mockErrorOnce (consume w f k) f m e"
  by (simp add: consume_def mockErrorOnce_def update_file_def fun_upd_twist)

lemma consume_mockErrorOnce_empty:
  "mockQueues (file_at w f) m = [] \<Longrightarrow> consume (mockErrorOnce w f m e) f m = w"
  by (simp add: consume_def mockErrorOnce_def update_file_def queue_upd_same)

lemma markAsExists_mockErrorOnce:
  "markAsExists (mockErrorOnce w f m e) g = mockErrorOnce (markAsExists w g) f m e"
  by (simp add: markAsExists_def) (simp add: mockErrorOnce_def update_file_def update_bucket_def)

lemma update_contents_mockErrorOnce:
  "update_file (mockErrorOnce w f m e) f (\<lambda>this. this\<lparr>contents := c\<rparr>) =
   mockErrorOnce (update_file w f (\<lambda>this. this\<lparr>contents := c\<rparr>)) f m e"
  by (cases "file_at w f") (simp add: mockErrorOnce_def update_file_def)

lemma update_metadata_mockErrorOnce:
  "update_file (mockErrorOnce w f m e) f (\<lambda>this. this\<lparr>metadata := c\<rparr>) =
   mockErrorOnce (update_file w f (\<lambda>this. this\<lparr>metadata := c\<rparr>)) f m e"
  by (cases "file_at w f") (simp add: mockErrorOnce_def update_file_def)

lemma update_bucket_mockErrorOnce:
  "update_bucket (mockErrorOnce w f m e) b g = mockErrorOnce (update_bucket w b g) f m e"
  by (simp add: mockErrorOnce_def update_file_def update_bucket_def)

lemma disk_mockErrorOnce:
  "(mockErrorOnce w f m e)\<lparr>disk := d\<rparr> = mockErrorOnce (w\<lparr>disk := d\<rparr>) f m e"
  by (simp add: mockErrorOnce_def update_file_def)

lemmas mockErrorOnce_commutes =
  consume_mockErrorOnce mockErrorOnce_queue markAsExists_mockErrorOnce
  update_contents_mockErrorOnce update_metadata_mockErrorOnce update_bucket_mockErrorOnce
  disk_mockErrorOnce

lemma delete_commute:
  "M_delete \<noteq> m \<Longrightarrow>
   delete (mockErrorOnce w f m e) f = (fst (delete w f), mockErrorOnce (snd (delete w f)) f m e)"
  by (simp add: delete_def shift_queue_eq mockErrorOnce_commutes split: list.splits sum.splits)

lemma exists_commute:
  "M_exists \<noteq> m \<Longrightarrow>
   exists (mockErrorOnce w f m e) f = (fst (exists w f), mockErrorOnce (snd (exists w f)) f m e)"
  by (simp add: exists_def shift_queue_eq mockErrorOnce_commutes split: list.splits sum.splits)

lemma download_commute:
  "M_download \<noteq> m \<Longrightarrow>
   download (mockErrorOnce w f m e) f d =
     (fst (download w f d), mockErrorOnce (snd (download w f d)) f m e)"
  by (simp add: download_def shift_queue_eq mockErrorOnce_commutes
      split: list.splits sum.splits option.splits)

lemma getSignedUrl_commute:
  "M_getSignedUrl \<noteq> m \<Longrightarrow>
   getSignedUrl (mockErrorOnce w f m e) f =
     (fst (getSignedUrl w f), mockErrorOnce (snd (getSignedUrl w f)) f m e)"
  by (simp add: getSignedUrl_def shift_queue_eq mockErrorOnce_commutes split: list.splits sum.splits)

lemma save_commute:
  "M_save \<noteq> m \<Longrightarrow>
   save (mockErrorOnce w f m e) f d om =
     (fst (save w f d om), mockErrorOnce (snd (save w f d om)) f m e)"
  by (simp add: save_def shift_queue_eq mockErrorOnce_commutes Let_def split: list.splits sum.splits)

lemma setMetadata_commute:
  "M_setMetadata \<noteq> m \<Longrightarrow>
   setMetadata (mockErrorOnce w f m e) f md =
     (fst (setMetadata w f md), mockErrorOnce (snd (setMetadata w f md)) f m e)"
  by (simp add: setMetadata_def shift_queue_eq mockErrorOnce_commutes Let_def
      split: list.splits sum.splits)

lemma getMetadata_commute:
  "M_getMetadata \<noteq> m \<Longrightarrow>
   getMetadata (mockErrorOnce w f m e) f =
     (fst (getMetadata w f), mockErrorOnce (snd (getMetadata w f)) f m e)"
  by (simp add: getMetadata_def shift_queue_eq mockErrorOnce_commutes split: list.splits sum.splits)

lemma invoke_commute:
  "method_of c \<noteq> m \<Longrightarrow>
   invoke (mockErrorOnce w f m e) f c =
     (fst (invoke w f c), mockErrorOnce (snd (invoke w f c)) f m e)"
  by (cases c)
     (simp_all add: delete_commute exists_commute download_commute getSignedUrl_commute
        save_commute setMetadata_commute getMetadata_commute respond_pair respond_sel)

subsection \<open>Queued errors fire first, in the order of their enqueuing\<close>

lemma invoke_head:
  "mockQueues (file_at w f) (method_of c) = MockError x # q \<Longrightarrow>
   invoke w f c = (Inl x, consume w f (method_of c))"
  by (cases c)
     (simp_all add: respond_def delete_def exists_def download_def getSignedUrl_def save_def
        setMetadata_def getMetadata_def shift_queue_eq)

lemma invoke_times_fifo:
  "mockQueues (file_at w f) (method_of c) = map MockError es \<Longrightarrow>
   invoke_times (length es) w f c = (map Inl es, mockReset w f (Some (method_of c)))"
proof (induction es arbitrary: w)
  case Nil
  then show ?case by (simp add: mockReset_def update_file_def queue_upd_same)
next
  case (Cons x es)
  have q: "mockQueues (file_at (consume w f (method_of c)) f) (method_of c) = map MockError es"
    using Cons.prems by (simp add: consume_def update_file_def)
  have r: "mockReset (consume w f (method_of c)) f (Some (method_of c)) =
           mockReset w f (Some (method_of c))"
    by (simp add: consume_def mockReset_def update_file_def)
  show ?case
    using Cons.prems Cons.IH [OF q] by (simp add: invoke_head r)
qed

lemma mockReset_mockErrorOnce:
  "mockReset (mockErrorOnce w f m e) f (Some m) = mockReset w f (Some m)"
  by (simp add: mockReset_def mockErrorOnce_def update_file_def)

lemma mockReset_empty: "mockQueues (file_at w f) m = [] \<Longrightarrow> mockReset w f (Some m) = w"
  by (simp add: mockReset_def update_file_def queue_upd_same)

section \<open>Objects as property lists\<close>

lemma map_of_insert_index:
  "k \<notin> fst ` set ps \<Longrightarrow> map_of (insert_index k v ps) = (map_of ps)(k \<mapsto> v)"
  by (induction ps) (auto simp: fun_upd_twist)

lemma map_of_append_new:
  "k \<notin> fst ` set ps \<Longrightarrow> map_of (ps @ [(k, v)]) = (map_of ps)(k \<mapsto> v)"
  by (induction ps) (auto simp: fun_upd_twist)

lemma obj_get_obj_set: "obj_get (obj_set ps k v) k' = (if k' = k then Some v else obj_get ps k')"
  by (simp add: obj_get_def obj_set_def update_conv' map_of_insert_index map_of_append_new
      del: map_of_append)


lemma obj_set_same: "obj_get ps k = Some v \<Longrightarrow> obj_set ps k v = ps"
  by (simp add: obj_get_def obj_set_def update_triv map_of_eq_None_iff [symmetric] del: map_of_eq_None_iff)

section \<open>Reads and assignments of the files of a bucket\<close>

lemma assign_own_plain: "k \<noteq> ''__proto__'' \<Longrightarrow> assign_own ps k v = obj_set ps k v"
  by (simp add: assign_own_def)

lemma assign_own_same: "obj_get ps k = Some v \<Longrightarrow> assign_own ps k v = ps"
  by (simp add: assign_own_def obj_set_same)

lemma files_assign_plain:
  "k \<noteq> ''__proto__'' \<Longrightarrow> files_assign this k v = this\<lparr>files := obj_set (files this) k v\<rparr>"
  by (simp add: files_assign_def assign_own_def)

lemma files_assign_same: "obj_get (files this) k = Some v \<Longrightarrow> files_assign this k v = this"
  by (simp add: files_assign_def assign_own_same)

lemma files_assign_fields [simp]:
  "bucket_name (files_assign this k v) = bucket_name this"
  "bucket_storage (files_assign this k v) = bucket_storage this"
  by (simp_all add: files_assign_def)

lemma proto_is_inherited: "inherited w b ''__proto__'' \<noteq> None"
  by (simp add: inherited_def Object_prototype_names_def split: prototype.splits)

lemma files_at_None:
  "files_at w b k = None \<Longrightarrow> k \<noteq> ''__proto__'' \<and> obj_get (files (bucket_at w b)) k = None"
  using proto_is_inherited [of w b] by (auto simp: files_at_def split: option.splits)

lemma files_at_own: "obj_get (files (bucket_at w b)) k = Some v \<Longrightarrow> files_at w b k = Some v"
  by (simp add: files_at_def)

lemma ordinary_plain: "ordinary w b k \<Longrightarrow> k \<noteq> ''__proto__''"
  by (auto simp: ordinary_def Object_prototype_names_def)

lemma inherited_ordinary: "ordinary w b k \<Longrightarrow> inherited w b k = None"
  by (simp add: ordinary_def inherited_def)



lemma files_at_ordinary: "ordinary w b k \<Longrightarrow> files_at w b k = obj_get (files (bucket_at w b)) k"
  by (simp add: files_at_def inherited_ordinary split: option.splits)

lemma ordinary_cong:
  "files_prototype (bucket_at w' b) = files_prototype (bucket_at w b) \<Longrightarrow>
   ordinary w' b k = ordinary w b k"
  by (simp add: ordinary_def)

text \<open>A file found by a read is found whatever the fields of the files are.\<close>

lemma files_at_Instance_cong:
  "bucket_at w' = bucket_at w \<Longrightarrow> files_at w b k = Some (Instance f) \<Longrightarrow>
   files_at w' b k = Some (Instance f)"
  by (auto simp: files_at_def inherited_def split: option.splits prototype.splits if_splits)

lemma files_at_assigned:
  "files_at (update_bucket w b (\<lambda>this. files_assign this k (Instance f))) b k = Some (Instance f)"
  by (auto simp: files_at_def inherited_def update_bucket_def files_assign_def assign_own_def
      obj_get_obj_set split: option.splits)

section \<open>Membership\<close>

lemma in_bucket_ordinary:
  "ordinary w (bucket (file_at w f)) (name (file_at w f)) \<Longrightarrow>
   in_bucket w f = (obj_get (files (bucket_at w (bucket (file_at w f)))) (name (file_at w f)) \<noteq> None)"
  by (simp add: in_bucket_def files_at_ordinary)

lemma markAsExists_file_at [simp]: "file_at (markAsExists w f) = file_at w"
  by (simp add: markAsExists_def update_bucket_def)


lemma markAsExists_present: "in_bucket w f \<Longrightarrow> markAsExists w f = w"
  by (simp add: markAsExists_def)

lemma in_bucket_update_contents [simp]:
  "in_bucket (update_file w f (\<lambda>this. this\<lparr>contents := c\<rparr>)) g = in_bucket w g"
  by (rule in_bucket_cong) (simp_all add: update_file_def)

text \<open>The library gives a file truthy metadata only, which keep what is found.\<close>

lemma files_at_update_metadata:
  "truthy c \<Longrightarrow> files_at w b k \<noteq> None \<Longrightarrow>
   files_at (update_file w f (\<lambda>this. this\<lparr>metadata := c\<rparr>)) b k \<noteq> None"
  by (auto simp: files_at_def inherited_def update_file_def
      split: option.splits prototype.splits if_splits)

lemma in_bucket_update_metadata:
  assumes "truthy c" and "in_bucket w g"
  shows "in_bucket (update_file w f (\<lambda>this. this\<lparr>metadata := c\<rparr>)) g"
proof -
  let ?w' = "update_file w f (\<lambda>this. this\<lparr>metadata := c\<rparr>)"
  have "bucket (file_at ?w' g) = bucket (file_at w g)" "name (file_at ?w' g) = name (file_at w g)"
    by (simp_all add: update_file_def)
  then show ?thesis
    using files_at_update_metadata [of c w "bucket (file_at w g)" "name (file_at w g)" f] assms
    by (simp add: in_bucket_def)
qed

lemma in_bucket_consume [simp]: "in_bucket (consume w f m) g = in_bucket w g"
  by (rule in_bucket_cong) simp_all

lemma optional_metadata_simps [simp]:
  "optional_metadata JUndefined = JUndefined"
  "optional_metadata JNull = JUndefined"
  "optional_metadata (JObj [(''metadata'', v)]) = v"
  by (simp_all add: optional_metadata_def obj_get_def)


lemma save_empty:
  "mockQueues (file_at w f) M_save = [] \<Longrightarrow>
   save w f d om =
     (Inr (),
      update_file
        (if truthy (optional_metadata om)
           then update_file (markAsExists w f) f (\<lambda>this. this\<lparr>metadata := optional_metadata om\<rparr>)
         else markAsExists w f)
        f (\<lambda>this. this\<lparr>contents := to_Buffer d\<rparr>))"
  by (simp add: save_def shift_queue_def Let_def)


lemma exists_empty:
  "mockQueues (file_at w f) M_exists = [] \<Longrightarrow> exists w f = (Inr (in_bucket w f), w)"
  by (simp add: exists_def shift_queue_def)



text \<open>After a delete the read finds what the files object inherits under the name.\<close>

lemma inherited_update_files [simp]:
  "inherited (update_bucket w b (\<lambda>this. this\<lparr>files := g this\<rparr>)) b' k = inherited w b' k"
  by (rule inherited_cong) (simp_all add: update_bucket_def)





lemma file_of_fresh:
  "files_at w b n = None \<Longrightarrow>
   file_of w b n False = (Instance (next_file w), snd (new_MockFile w b n))"
  by (simp add: file_of_def new_MockFile_def)

lemma file_of_found: "files_at w b n = Some v \<Longrightarrow> file_of w b n False = (v, w)"
  by (simp add: file_of_def)

lemma new_MockFile_fields [simp]:
  "bucket_at (snd (new_MockFile w b n)) = bucket_at w"
  "next_file (snd (new_MockFile w b n)) = Suc (next_file w)"
  "file_at (snd (new_MockFile w b n)) (next_file w) =
     \<lparr>name = n, bucket = b, parent = b, storage = bucket_storage (bucket_at w b),
      contents = [], metadata = default_metadata, mockQueues = (\<lambda>m. [])\<rparr>"
  "g \<noteq> next_file w \<Longrightarrow> file_at (snd (new_MockFile w b n)) g = file_at w g"
  by (simp_all add: new_MockFile_def)

lemma ordinary_new_MockFile [simp]:
  "ordinary (snd (new_MockFile w b n)) b' k = ordinary w b' k"
  by (simp add: ordinary_def)






lemma queues_after_update [simp]:
  "mockQueues (file_at (update_file w f (\<lambda>this. this\<lparr>contents := c\<rparr>)) g) = mockQueues (file_at w g)"
  "mockQueues (file_at (update_file w f (\<lambda>this. this\<lparr>metadata := md\<rparr>)) g) = mockQueues (file_at w g)"
  "mockQueues (file_at (update_bucket w b h) g) = mockQueues (file_at w g)"
  "mockQueues (file_at (markAsExists w f) g) = mockQueues (file_at w g)"
  by (simp_all add: update_file_def update_bucket_def)

lemma is_array_index_letter: "\<not> is_digit c \<Longrightarrow> \<not> is_array_index (c # s)"
  by (simp add: is_array_index_def)

lemma update_bucket_same: "g (bucket_at w b) = bucket_at w b \<Longrightarrow> update_bucket w b g = w"
  by (simp add: update_bucket_def)

lemma bucket_of_known:
  "obj_get (buckets (storage_at w s)) n = Some b \<Longrightarrow> bucket_of w s n = (Some (Instance b), w)"
  by (simp add: bucket_of_def buckets_at_def)

lemma bucket_of_new:
  "n \<notin> set Object_prototype_names \<Longrightarrow> obj_get (buckets (storage_at w s)) n = None \<Longrightarrow>
   bucket_of w s n =
     (Some (Instance (next_bucket w)),
      update_storage (snd (new_MockBucket w s n)) s
        (\<lambda>this. this\<lparr>buckets := obj_set (buckets this) n (next_bucket w)\<rparr>))"
proof -
  assume plain: "n \<notin> set Object_prototype_names" and none: "obj_get (buckets (storage_at w s)) n = None"
  from plain have "n \<noteq> ''__proto__''"
    by (auto simp: Object_prototype_names_def)
  then have "assign_own ps n v = obj_set ps n v" for ps :: "nat js_object" and v
    by (rule assign_own_plain)
  with plain none show ?thesis
    by (simp add: bucket_of_def buckets_at_def new_MockBucket_def update_storage_def obj_get_obj_set)
qed

lemma bucket_of_inherited:
  "n \<in> set Object_prototype_names \<Longrightarrow> obj_get (buckets (storage_at w s)) n = None \<Longrightarrow>
   bucket_of w s n = (Some Foreign, w)"
  by (simp add: bucket_of_def buckets_at_def)

lemma file_of_known:
  "obj_get (files (bucket_at w b)) k = Some v \<Longrightarrow> file_of w b k force = (v, w)"
  by (simp add: file_of_def files_at_own files_assign_same update_bucket_same)

lemma file_of_forced:
  "ordinary w b k \<Longrightarrow> obj_get (files (bucket_at w b)) k = None \<Longrightarrow>
   file_of w b k True =
     (Instance (next_file w),
      update_bucket (snd (new_MockFile w b k)) b
        (\<lambda>this. this\<lparr>files := obj_set (files this) k (Instance (next_file w))\<rparr>))"
  by (simp add: file_of_def files_at_ordinary ordinary_plain files_assign_plain new_MockFile_def)

lemma obj_set_new_name: "\<not> is_digit c \<Longrightarrow> (c # s) \<notin> set (map fst ps) \<Longrightarrow> obj_set ps (c # s) v = ps @ [(c # s, v)]"
  by (simp add: obj_set_def is_array_index_letter)

section \<open>Metadata\<close>

lemma prop_metadata_truthy: "truthy md \<Longrightarrow> prop_metadata md = Inr (custom_of md)"
  by (cases md) (simp_all add: custom_of_def)

lemma prop_metadata_custom: "prop_metadata v = Inr c \<Longrightarrow> custom_of v = c"
  by (simp add: custom_of_def)

lemma setMetadata_empty:
  assumes "mockQueues (file_at w f) M_setMetadata = []" and "in_bucket w f"
    and "prop_metadata (metadata (file_at w f)) = Inr oc" and "prop_metadata md = Inr nc"
  shows "setMetadata w f md =
           (Inr (merged_metadata (metadata (file_at w f)) md),
            update_file w f (\<lambda>this. this\<lparr>metadata := merged_metadata (metadata (file_at w f)) md\<rparr>))"
  using assms
  by (simp add: setMetadata_def shift_queue_def mustBeExists_def merged_metadata_def merge_top_def
      custom_of_def Let_def)

lemma prop_metadata_default: "prop_metadata default_metadata = Inr (JObj [])"
  by (simp add: default_metadata_def obj_get_def)


lemma obj_get_Cons: "obj_get (p # s) k = (if k = fst p then Some (snd p) else obj_get s k)"
  by (cases p) (simp add: obj_get_def)

lemma obj_get_Nil [simp]: "obj_get [] k = None"
  by (simp add: obj_get_def)

lemma obj_get_assign_props:
  "distinct (map fst s) \<Longrightarrow> obj_get (assign_props t s) k = overwrite t s k"
proof (induction s arbitrary: t)
  case Nil
  then show ?case by (simp add: assign_props_def overwrite_def)
next
  case (Cons p s)
  have step: "assign_props t (p # s) = assign_props (obj_set t (fst p) (snd p)) s"
    by (simp add: assign_props_def)
  from Cons.prems have rest: "distinct (map fst s)" and head: "obj_get s (fst p) = None"
    by (auto simp: obj_get_def map_of_eq_None_iff)
  show ?case
    unfolding step Cons.IH [OF rest]
    using head by (simp add: overwrite_def obj_get_obj_set obj_get_Cons split: option.splits)
qed

lemma overwrite_Nil [simp]: "overwrite [] s k = obj_get s k"
  by (simp add: overwrite_def split: option.splits)

lemma obj_get_merge_top:
  "well_formed a \<Longrightarrow> well_formed b \<Longrightarrow>
   obj_get (merge_top a b) k = overwrite (spread a) (spread b) k"
  by (simp add: merge_top_def well_formed_def obj_get_assign_props)
     (simp add: overwrite_def obj_get_assign_props split: option.splits)

lemma letter_key: "\<not> is_digit c \<Longrightarrow> obj_set ps (c # s) v =
    (if (c # s) \<in> set (map fst ps) then AList.update (c # s) v ps else ps @ [(c # s, v)])"
  by (simp add: obj_set_def is_array_index_letter)

lemmas eval_metadata =
  merged_metadata_def merge_top_def custom_of_def default_metadata_def assign_props_def
  letter_key obj_get_def is_digit_def decimal_digits_def

lemma well_formed_JObj: "well_formed (JObj ps) = distinct (map fst ps)"
  by (simp add: well_formed_def)

lemma well_formed_plain [simp]:
  "well_formed JUndefined" "well_formed JNull" "well_formed (JBool b)" "well_formed (JNum n)"
  by (simp_all add: well_formed_def)

section \<open>Copying\<close>









section \<open>The concrete states, computed\<close>

lemma obj_set_Nil: "obj_set [] k v = [(k, v)]"
  by (simp add: obj_set_def)

lemma plain_names:
  "''test-file.txt'' \<notin> set Object_prototype_names"
  "''new-file.txt'' \<notin> set Object_prototype_names"
  "''my-file.txt'' \<notin> set Object_prototype_names"
  "''copied-file.txt'' \<notin> set Object_prototype_names"
  "''test-bucket'' \<notin> set Object_prototype_names"
  "''other-bucket'' \<notin> set Object_prototype_names"
  "''test-1'' \<notin> set Object_prototype_names"
  "''test-2'' \<notin> set Object_prototype_names"
  "''nn-test-3'' \<notin> set Object_prototype_names"
  "''1'' \<notin> set Object_prototype_names"
  "''2'' \<notin> set Object_prototype_names"
  by (simp_all add: Object_prototype_names_def)

lemma inherited_names:
  "''constructor'' \<in> set Object_prototype_names"
  "''toString'' \<in> set Object_prototype_names"
  "''__proto__'' \<in> set Object_prototype_names"
  by (simp_all add: Object_prototype_names_def)

lemma bucket_world_eq:
  "bucket_world =
     empty_world\<lparr>storage_at := (storage_at empty_world)(0 := \<lparr>buckets = [(''test-bucket'', 0)]\<rparr>),
       bucket_at := (bucket_at empty_world)
         (0 := \<lparr>bucket_name = ''test-bucket'', bucket_storage = 0, files = [],
                files_prototype = Object_prototype\<rparr>),
       next_storage := 1, next_bucket := 1\<rparr>"
  by (simp add: bucket_world_def empty_world_def new_MockStorage_def bucket_of_def buckets_at_def
      plain_names assign_own_def new_MockBucket_def update_storage_def obj_get_def obj_set_Nil
      Let_def)

lemma bucket_world_fields:
  "bucket_at bucket_world 0 =
     \<lparr>bucket_name = ''test-bucket'', bucket_storage = 0, files = [],
      files_prototype = Object_prototype\<rparr>"
  "next_file bucket_world = 0"
  "next_bucket bucket_world = 1"
  "storage_at bucket_world 0 = \<lparr>buckets = [(''test-bucket'', 0)]\<rparr>"
  by (simp_all add: bucket_world_eq empty_world_def)

lemma test_world_eq:
  "test_world =
     bucket_world\<lparr>bucket_at := (bucket_at bucket_world)
         (0 := \<lparr>bucket_name = ''test-bucket'', bucket_storage = 0,
                files = [(''test-file.txt'', Instance 0)], files_prototype = Object_prototype\<rparr>),
       file_at := (file_at bucket_world)
         (0 := \<lparr>name = ''test-file.txt'', bucket = 0, parent = 0, storage = 0, contents = [],
                metadata = default_metadata, mockQueues = (\<lambda>m. [])\<rparr>),
       next_file := 1\<rparr>"
  by (simp add: test_world_def bucket_world_fields file_of_def files_at_def inherited_def
      plain_names files_assign_def assign_own_def new_MockFile_def update_bucket_def
      obj_get_def obj_set_Nil)

lemma test_world_fields:
  "bucket_at test_world 0 =
     \<lparr>bucket_name = ''test-bucket'', bucket_storage = 0,
      files = [(''test-file.txt'', Instance 0)], files_prototype = Object_prototype\<rparr>"
  "file_at test_world 0 =
     \<lparr>name = ''test-file.txt'', bucket = 0, parent = 0, storage = 0, contents = [],
      metadata = default_metadata, mockQueues = (\<lambda>m. [])\<rparr>"
  "next_file test_world = 1"
  by (simp_all add: test_world_eq)

lemma bucket_world_ordinary: "ordinary bucket_world 0 k = (k \<notin> set Object_prototype_names)"
  by (simp add: ordinary_def bucket_world_fields)

lemma test_world_ordinary: "ordinary test_world 0 k = (k \<notin> set Object_prototype_names)"
  by (simp add: ordinary_def test_world_fields)

lemma test_world_present: "in_bucket test_world 0"
  by (simp add: in_bucket_def files_at_def test_world_fields obj_get_def)

lemma test_world_exists: "exists test_world 0 = (Inr True, test_world)"
  by (simp add: exists_def shift_queue_def test_world_fields test_world_present)




lemma test_world_absent: "obj_get (files (bucket_at test_world 0)) ''new-file.txt'' = None"
  by (simp add: test_world_fields obj_get_def)

lemma first_lookup_eq:
  "fst first_lookup = Instance 0"
  "bucket_at (snd first_lookup) = bucket_at bucket_world"
  "next_file (snd first_lookup) = Suc 0"
  "file_at (snd first_lookup) 0 =
     \<lparr>name = ''my-file.txt'', bucket = 0, parent = 0, storage = 0, contents = [],
      metadata = default_metadata, mockQueues = (\<lambda>m. [])\<rparr>"
  by (simp_all add: first_lookup_def file_of_def files_at_def inherited_def plain_names
      new_MockFile_def bucket_world_fields obj_get_def)

lemma second_lookup_eq:
  "fst second_lookup = Instance (Suc 0)"
  "bucket_at (snd second_lookup) = bucket_at bucket_world"
  "file_at (snd second_lookup) 0 = file_at (snd first_lookup) 0"
  "file_at (snd second_lookup) (Suc 0) =
     \<lparr>name = ''my-file.txt'', bucket = 0, parent = 0, storage = 0, contents = [],
      metadata = default_metadata, mockQueues = (\<lambda>m. [])\<rparr>"
  by (simp_all add: second_lookup_def file_of_def files_at_def inherited_def plain_names
      new_MockFile_def first_lookup_eq bucket_world_fields obj_get_def)

section \<open>The state after put\<close>

lemma put_eq:
  "put w b n c md =
     (Inr (Some (Instance (next_file w))),
      (let w1 = update_bucket (snd (new_MockFile w b n)) b
                  (\<lambda>this. files_assign this n (Instance (next_file w)));
           w2 = (if data_truthy c
                 then update_file w1 (next_file w)
                        (\<lambda>this. this\<lparr>contents := (case c of None \<Rightarrow> [] | Some d \<Rightarrow> to_Buffer d)\<rparr>)
                 else w1)
       in if truthy md
          then update_file w2 (next_file w)
                 (\<lambda>this. this\<lparr>metadata := merged_metadata default_metadata md\<rparr>)
          else w2))"
proof -
  let ?f = "next_file w"
  let ?w0 = "w\<lparr>file_at := (file_at w)(next_file w :=
           \<lparr>name = n, bucket = b, parent = b, storage = bucket_storage (bucket_at w b),
            contents = [], metadata = default_metadata, mockQueues = (\<lambda>m. [])\<rparr>),
        next_file := Suc (next_file w)\<rparr>"
  let ?w1 = "update_bucket ?w0 b (\<lambda>this. files_assign this n (Instance ?f))"
  let ?w2 = "if data_truthy c
             then update_file ?w1 ?f
                    (\<lambda>this. this\<lparr>contents := (case c of None \<Rightarrow> [] | Some d \<Rightarrow> to_Buffer d)\<rparr>)
             else ?w1"
  let ?m = "merged_metadata default_metadata md"
  let ?w3 = "if truthy md then update_file ?w2 ?f (\<lambda>this. this\<lparr>metadata := ?m\<rparr>) else ?w2"
  have new: "new_MockFile w b n = (?f, ?w0)"
    by (simp add: new_MockFile_def)
  have get1: "files_at ?w1 b n = Some (Instance ?f)"
    by (rule files_at_assigned)
  have file1: "file_at ?w1 ?f =
      \<lparr>name = n, bucket = b, parent = b, storage = bucket_storage (bucket_at w b),
       contents = [], metadata = default_metadata, mockQueues = (\<lambda>m. [])\<rparr>"
    by (simp add: update_bucket_def)
  have in1: "in_bucket ?w1 ?f"
    by (simp add: in_bucket_def file1 get1)
  have step1: "(if data_truthy c
                then (case the_file (files_at ?w1 b n) of
                        None \<Rightarrow> (Inl (not_a_method ''this.files[name].save''), ?w1)
                      | Some g \<Rightarrow>
                          (case c of
                             None \<Rightarrow> (Inl (not_a_method ''this.files[name].save''), ?w1)
                           | Some d \<Rightarrow> save ?w1 g d JUndefined))
                else (Inr (), ?w1)) = (Inr (), ?w2)"
    by (cases c)
       (simp_all add: data_truthy_def get1 the_file_def save_empty file1 in1 markAsExists_present)
  have "bucket_at ?w2 = bucket_at ?w1"
    by (simp add: update_file_def)
  then have get2: "files_at ?w2 b n = Some (Instance ?f)"
    using get1 by (rule files_at_Instance_cong)
  have file2: "metadata (file_at ?w2 ?f) = default_metadata"
    "mockQueues (file_at ?w2 ?f) = (\<lambda>m. [])"
    using file1 by (simp_all add: update_file_def)
  have in2: "in_bucket ?w2 ?f"
    using in1 by simp
  have step2: "(if truthy md
                then (case the_file (files_at ?w2 b n) of
                        Some g \<Rightarrow> setMetadata ?w2 g md
                      | None \<Rightarrow> (Inl (not_a_method ''this.files[name].setMetadata''), ?w2))
                else (Inr JUndefined, ?w2)) =
               (Inr (if truthy md then ?m else JUndefined), ?w3)"
    using setMetadata_empty [of ?w2 ?f "JObj []" md "custom_of md"] in2
    by (simp add: get2 the_file_def file2 prop_metadata_default prop_metadata_truthy)
  have "bucket_at ?w3 = bucket_at ?w2"
    by (simp add: update_file_def)
  then have get3: "files_at ?w3 b n = Some (Instance ?f)"
    using get2 by (rule files_at_Instance_cong)
  have "put w b n c md = (Inr (Some (Instance ?f)), ?w3)"
    unfolding put_def new prod.case Let_def
    unfolding step1 prod.case sum.case
    unfolding step2 prod.case sum.case
    unfolding get3 ..
  then show ?thesis
    by (simp add: new Let_def)
qed





lemma put_next_file: "next_file (snd (put w b n c md)) = Suc (next_file w)"
  by (simp add: put_eq Let_def update_file_def update_bucket_def new_MockFile_def)


lemma three_files_fields:
  "bucket_at three_files 0 =
     \<lparr>bucket_name = ''test-bucket'', bucket_storage = 0,
      files = [(''test-1'', Instance 0), (''test-2'', Instance (Suc 0)),
               (''nn-test-3'', Instance (Suc (Suc 0)))],
      files_prototype = Object_prototype\<rparr>"
  "name (file_at three_files 0) = ''test-1''"
  "name (file_at three_files (Suc 0)) = ''test-2''"
  "name (file_at three_files (Suc (Suc 0))) = ''nn-test-3''"
  "bucket (file_at three_files 0) = 0"
  "bucket (file_at three_files (Suc 0)) = 0"
  "bucket (file_at three_files (Suc (Suc 0))) = 0"
  "mockQueues (file_at three_files 0) = (\<lambda>m. [])"
  "mockQueues (file_at three_files (Suc 0)) = (\<lambda>m. [])"
  "mockQueues (file_at three_files (Suc (Suc 0))) = (\<lambda>m. [])"
  by (simp_all add: three_files_def put_eq Let_def update_bucket_def update_file_def new_MockFile_def
      data_truthy_def bucket_world_fields files_assign_plain obj_set_new_name obj_set_Nil
      is_digit_def decimal_digits_def)

lemma three_files_present:
  "in_bucket three_files 0" "in_bucket three_files (Suc 0)" "in_bucket three_files (Suc (Suc 0))"
  by (simp_all add: in_bucket_def files_at_def three_files_fields obj_get_def)

lemma test_world_setMetadata:
  "prop_metadata md = Inr nc \<Longrightarrow>
   setMetadata test_world 0 md =
     (Inr (merged_metadata default_metadata md),
      update_file test_world 0 (\<lambda>this. this\<lparr>metadata := merged_metadata default_metadata md\<rparr>))"
  using setMetadata_empty [of test_world 0 "JObj []" md nc]
  by (simp add: test_world_fields test_world_present prop_metadata_default)

lemma merged_twice_fields:
  "metadata (file_at merged_twice 0) =
     JObj [(''metadata'', JObj []), (''a'', JNum 1), (''b'', JNum 2)]"
  "mockQueues (file_at merged_twice 0) = (\<lambda>m. [])"
  "in_bucket merged_twice 0"
proof -
  let ?m1 = "JObj [(''metadata'', JObj []), (''a'', JNum 1)]"
  let ?w1 = "update_file test_world 0 (\<lambda>this. this\<lparr>metadata := ?m1\<rparr>)"
  have m1: "merged_metadata default_metadata (JObj [(''a'', JNum 1)]) = ?m1"
    by (simp add: eval_metadata)
  have 1: "snd (setMetadata test_world 0 (JObj [(''a'', JNum 1)])) = ?w1"
    by (simp add: test_world_setMetadata [where nc = JUndefined] m1 obj_get_def)
  have m2: "merged_metadata ?m1 (JObj [(''b'', JNum 2)]) =
      JObj [(''metadata'', JObj []), (''a'', JNum 1), (''b'', JNum 2)]"
    by (simp add: eval_metadata)
  have in1: "in_bucket ?w1 0"
    by (simp add: in_bucket_update_metadata test_world_present)
  have 2: "merged_twice =
      update_file ?w1 0 (\<lambda>this. this\<lparr>metadata :=
        JObj [(''metadata'', JObj []), (''a'', JNum 1), (''b'', JNum 2)]\<rparr>)"
    unfolding merged_twice_def 1
    using setMetadata_empty [of ?w1 0 "JObj []" "JObj [(''b'', JNum 2)]" JUndefined] in1
    by (simp add: update_file_def test_world_fields obj_get_def m2)
  show "metadata (file_at merged_twice 0) =
     JObj [(''metadata'', JObj []), (''a'', JNum 1), (''b'', JNum 2)]"
    by (simp add: 2 update_file_def)
  show "mockQueues (file_at merged_twice 0) = (\<lambda>m. [])"
    by (simp add: 2 update_file_def test_world_fields)
  show "in_bucket merged_twice 0"
    by (simp add: 2 in_bucket_update_metadata test_world_present)
qed

lemma custom_once_fields:
  "metadata (file_at custom_once 0) = JObj [(''metadata'', JObj [(''a'', JNum 1)])]"
  "mockQueues (file_at custom_once 0) = (\<lambda>m. [])"
  "in_bucket custom_once 0"
  "contents (file_at custom_once 0) = []"
proof -
  have m: "merged_metadata default_metadata (JObj [(''metadata'', JObj [(''a'', JNum 1)])]) =
      JObj [(''metadata'', JObj [(''a'', JNum 1)])]"
    by (simp add: eval_metadata)
  have w: "custom_once = update_file test_world 0
      (\<lambda>this. this\<lparr>metadata := JObj [(''metadata'', JObj [(''a'', JNum 1)])]\<rparr>)"
    unfolding custom_once_def
    by (simp add: test_world_setMetadata [where nc = "JObj [(''a'', JNum 1)]"] m obj_get_def)
  show "metadata (file_at custom_once 0) = JObj [(''metadata'', JObj [(''a'', JNum 1)])]"
    "mockQueues (file_at custom_once 0) = (\<lambda>m. [])"
    "in_bucket custom_once 0"
    "contents (file_at custom_once 0) = []"
    by (simp_all add: w update_file_def test_world_fields in_bucket_def files_at_def obj_get_def)
qed




lemma three_files_ordinary: "ordinary three_files 0 k = (k \<notin> set Object_prototype_names)"
  by (simp add: ordinary_def three_files_fields)



section \<open>Listing and bulk delete\<close>

lemma startsWith_Nil [simp]: "startsWith s []"
  by (simp add: startsWith_def)

lemma filter_none: "list_all (\<lambda>x. \<not> P x) xs \<Longrightarrow> filter (\<lambda>x. \<not> P x) xs = xs"
  by (induction xs) auto

lemma map_of_without_prefix:
  "map_of (filter (\<lambda>entry. \<not> startsWith (fst entry) p) ps) k =
     (if startsWith k p then None else map_of ps k)"
  by (induction ps) auto

lemma deleteFiles_files:
  "files (bucket_at (deleteFiles w b q) b) =
     filter (\<lambda>entry. \<not> startsWith (fst entry) (the_prefix q)) (files (bucket_at w b))"
  by (simp add: deleteFiles_def the_prefix_def update_bucket_def)

lemma deleteFiles_fields [simp]:
  "file_at (deleteFiles w b q) = file_at w"
  "b' \<noteq> b \<Longrightarrow> bucket_at (deleteFiles w b q) b' = bucket_at w b'"
  by (simp_all add: deleteFiles_def update_bucket_def)

lemma deleteFiles_prototype [simp]:
  "files_prototype (bucket_at (deleteFiles w b q) b') = files_prototype (bucket_at w b')"
  by (simp add: deleteFiles_def update_bucket_def)

lemma inherited_deleteFiles [simp]: "inherited (deleteFiles w b q) b' k = inherited w b' k"
  by (rule inherited_cong) simp_all

lemma files_at_deleteFiles:
  "files_at (deleteFiles w b q) b' k =
     (if b' = b \<and> startsWith k (the_prefix q) then inherited w b k else files_at w b' k)"
  by (cases "b' = b")
     (auto simp: files_at_def deleteFiles_files obj_get_def map_of_without_prefix
        split: option.splits)

lemma in_bucket_deleteFiles:
  "in_bucket (deleteFiles w b q) f =
     (in_bucket w f
      \<and> \<not> (bucket (file_at w f) = b \<and> startsWith (name (file_at w f)) (the_prefix q)
            \<and> inherited w b (name (file_at w f)) = None))"
  by (simp add: in_bucket_def files_at_deleteFiles) (auto simp: files_at_def split: option.splits)

lemma getFiles_eq:
  "getFiles w b q =
     map snd (filter (\<lambda>entry. startsWith (fst entry) (the_prefix q)) (files (bucket_at w b)))"
  by (simp add: getFiles_def the_prefix_def)

lemma matching_names:
  "filter (\<lambda>k. startsWith k p) (map fst ps) = map fst (filter (\<lambda>entry. startsWith (fst entry) p) ps)"
  by (induction ps) auto

section \<open>The order of the keys of an object\<close>

lemma keys_insert_index: "fst ` set (insert_index k v ps) = insert k (fst ` set ps)"
  by (induction ps) auto

lemma others_insert_index:
  "is_array_index k \<Longrightarrow>
   filter other_key (map fst (insert_index k v ps)) = filter other_key (map fst ps)"
  by (induction ps) (auto simp: other_key_def)

lemma distinct_insert_index:
  "k \<notin> set (map fst ps) \<Longrightarrow> distinct (map fst ps) \<Longrightarrow> distinct (map fst (insert_index k v ps))"
  by (induction ps) (auto simp: keys_insert_index)

lemma key_before_trans:
  "key_before a b \<Longrightarrow> key_before b c \<Longrightarrow> key_before a c"
  by (auto simp: key_before_def split: if_splits)

lemma ordered_insert_index:
  assumes "is_array_index k" and "sorted_wrt key_before (map fst ps)"
  shows "sorted_wrt key_before (map fst (insert_index k v ps))"
  using assms(2)
proof (induction ps)
  case Nil
  then show ?case by simp
next
  case (Cons p ps)
  show ?case
  proof (cases "is_array_index (fst p) \<and> numeric_value (fst p) < numeric_value k")
    case True
    then have "key_before (fst p) k"
      using assms(1) by (simp add: key_before_def)
    moreover have "key_before (fst p) x" if "x \<in> fst ` set (insert_index k v ps)" for x
      using that Cons.prems \<open>key_before (fst p) k\<close> by (auto simp: keys_insert_index)
    ultimately show ?thesis
      using True Cons by auto
  next
    case False
    then have first: "key_before k (fst p)"
      using assms(1) by (auto simp: key_before_def)
    have "key_before k x" if "x \<in> set (map fst ps)" for x
    proof -
      from that Cons.prems have "key_before (fst p) x" by auto
      with first show ?thesis by (rule key_before_trans)
    qed
    with False first Cons.prems show ?thesis
      by auto
  qed
qed

lemma key_before_other: "other_key k \<Longrightarrow> key_before x k"
  by (simp add: key_before_def other_key_def)

lemma keys_follow_set:
  assumes "keys_follow ps ks"
  shows "keys_follow (obj_set ps k v) (if k \<in> set ks then ks else ks @ [k])"
proof (cases "k \<in> set (map fst ps)")
  case True
  then have "map fst (obj_set ps k v) = map fst ps"
    by (simp add: obj_set_def update_keys)
  with True assms show ?thesis
    by (simp add: keys_follow_def)
next
  case new: False
  with assms have nk: "k \<notin> set ks" by (simp add: keys_follow_def)
  show ?thesis
  proof (cases "is_array_index k")
    case True
    with new have "obj_set ps k v = insert_index k v ps"
      by (simp add: obj_set_def)
    with True new nk assms show ?thesis
      by (simp add: keys_follow_def ordered_insert_index distinct_insert_index
          others_insert_index keys_insert_index other_key_def)
  next
    case False
    with new have "obj_set ps k v = ps @ [(k, v)]"
      by (simp add: obj_set_def)
    with False new nk assms show ?thesis
      by (auto simp: keys_follow_def sorted_wrt_append key_before_other other_key_def)
  qed
qed

lemma keys_follow_assign:
  assumes "keys_follow ps ks"
  shows "keys_follow (assign_own ps k v) (if k \<in> set ks \<or> k = ''__proto__'' then ks else ks @ [k])"
proof (cases "k = ''__proto__'' \<and> obj_get ps k = None")
  case True
  with assms show ?thesis by (auto simp: assign_own_def)
next
  case False
  then have set: "assign_own ps k v = obj_set ps k v"
    by (auto simp: assign_own_def)
  from False assms have "k = ''__proto__'' \<Longrightarrow> k \<in> set ks"
    by (auto simp: keys_follow_def obj_get_def map_of_eq_None_iff)
  then have "(if k \<in> set ks \<or> k = ''__proto__'' then ks else ks @ [k]) =
      (if k \<in> set ks then ks else ks @ [k])"
    by auto
  with keys_follow_set [OF assms, of k v] set show ?thesis
    by simp
qed

lemma filter_removeAll: "filter P (removeAll k xs) = removeAll k (filter P xs)"
  by (induction xs) auto

lemma keys_follow_delete:
  assumes "keys_follow ps ks"
  shows "keys_follow (obj_delete ps k) (removeAll k ks)"
proof -
  have "map fst (obj_delete ps k) = removeAll k (map fst ps)"
    by (simp add: obj_delete_def delete_keys)
  moreover have "sorted_wrt key_before (removeAll k (map fst ps))"
    using assms by (simp add: keys_follow_def removeAll_filter_not_eq sorted_wrt_filter)
  ultimately show ?thesis
    using assms by (simp add: keys_follow_def filter_removeAll distinct_removeAll)
qed

lemma keys_follow_replay:
  "keys_follow ps ks \<Longrightarrow> keys_follow (replay cs ps) (created cs ks)"
proof (induction cs arbitrary: ps ks)
  case Nil
  then show ?case by simp
next
  case (Cons c cs)
  then show ?case
    by (cases c) (simp_all add: keys_follow_assign keys_follow_delete)
qed

lemma keys_follow_empty: "keys_follow [] []"
  by (simp add: keys_follow_def)

lemma map_of_nth_filter:
  assumes "distinct (map fst ps)" and "i < length (filter P ps)"
  shows "map_of ps (fst (filter P ps ! i)) = Some (snd (filter P ps ! i))"
proof -
  from assms(2) have "filter P ps ! i \<in> set (filter P ps)" by (rule nth_mem)
  then have "filter P ps ! i \<in> set ps" by simp
  then have "(fst (filter P ps ! i), snd (filter P ps ! i)) \<in> set ps" by simp
  with assms(1) show ?thesis by (rule map_of_is_SomeI)
qed

lemma small_indices:
  "is_array_index ''1''" "is_array_index ''2''"
  "numeric_value ''1'' = 1" "numeric_value ''2'' = 2"
  by (simp_all add: is_array_index_def numeric_value_def is_digit_def digit_value_def
      decimal_digits_def)

lemma two_numbered_fields:
  "files (bucket_at two_numbered 0) = [(''1'', Instance (Suc 0)), (''2'', Instance 0)]"
  "name (file_at two_numbered 0) = ''2''"
  "name (file_at two_numbered (Suc 0)) = ''1''"
  "files (bucket_at (snd (put bucket_world 0 ''2'' None JUndefined)) 0) = [(''2'', Instance 0)]"
  "files_prototype (bucket_at two_numbered 0) = Object_prototype"
  "bucket (file_at two_numbered (Suc 0)) = 0"
  by (simp_all add: two_numbered_def put_eq Let_def update_bucket_def update_file_def
      new_MockFile_def data_truthy_def bucket_world_fields files_assign_plain obj_set_def
      small_indices)

subsection \<open>Every state that the library reaches has built files objects\<close>

lemma replay_append: "replay (cs @ ds) ps = replay ds (replay cs ps)"
  by (induction cs ps rule: replay.induct) simp_all

lemma built_empty: "built []"
  unfolding built_def by (rule exI [of _ "[]"]) simp

lemma built_assign: "built ps \<Longrightarrow> built (assign_own ps k v)"
proof -
  assume "built ps"
  then obtain cs where "ps = replay cs []" by (auto simp: built_def)
  then have "assign_own ps k v = replay (cs @ [Assign k v]) []"
    by (simp add: replay_append)
  then show ?thesis unfolding built_def by blast
qed

lemma built_files_assign: "built (files this) \<Longrightarrow> built (files (files_assign this k v))"
  by (simp add: files_assign_def built_assign)

lemma built_delete: "built ps \<Longrightarrow> built (obj_delete ps k)"
proof -
  assume "built ps"
  then obtain cs where "ps = replay cs []" by (auto simp: built_def)
  then have "obj_delete ps k = replay (cs @ [Remove k]) []"
    by (simp add: replay_append)
  then show ?thesis unfolding built_def by blast
qed

lemma built_deletes: "built ps \<Longrightarrow> built (foldl obj_delete ps ks)"
  by (induction ks arbitrary: ps) (simp_all add: built_delete)

lemma foldl_obj_delete: "foldl obj_delete ps ks = filter (\<lambda>entry. fst entry \<notin> set ks) ps"
proof (induction ks arbitrary: ps)
  case Nil
  then show ?case by simp
next
  case (Cons k ks)
  have "obj_delete ps k = filter (\<lambda>entry. fst entry \<noteq> k) ps"
    by (auto simp: obj_delete_def AList.delete_eq intro: filter_cong)
  then show ?case
    by (simp add: Cons.IH conj_commute)
qed

lemma built_without_prefix:
  assumes "built ps"
  shows "built (filter (\<lambda>entry. \<not> startsWith (fst entry) p) ps)"
proof -
  let ?ks = "filter (\<lambda>k. startsWith k p) (map fst ps)"
  have "filter (\<lambda>entry. fst entry \<notin> set ?ks) ps = filter (\<lambda>entry. \<not> startsWith (fst entry) p) ps"
    by (rule filter_cong) auto
  then have "filter (\<lambda>entry. \<not> startsWith (fst entry) p) ps = foldl obj_delete ps ?ks"
    by (simp add: foldl_obj_delete)
  with assms show ?thesis
    by (simp add: built_deletes)
qed

lemma all_built_empty: "all_built empty_world"
  by (simp add: all_built_def empty_world_def built_empty)

lemma all_built_file_at [simp]: "all_built (w\<lparr>file_at := fs\<rparr>) = all_built w"
  "all_built (w\<lparr>next_file := n\<rparr>) = all_built w"
  "all_built (w\<lparr>disk := d\<rparr>) = all_built w"
  "all_built (w\<lparr>storage_at := ss\<rparr>) = all_built w"
  "all_built (w\<lparr>next_storage := n\<rparr>) = all_built w"
  "all_built (w\<lparr>next_bucket := n\<rparr>) = all_built w"
  by (simp_all add: all_built_def)

lemma all_built_update_file [simp]: "all_built (update_file w f g) = all_built w"
  by (simp add: update_file_def)

lemma all_built_update_bucket:
  "all_built w \<Longrightarrow> built (files (g (bucket_at w b))) \<Longrightarrow> all_built (update_bucket w b g)"
  by (simp add: all_built_def update_bucket_def)

lemma all_built_D: "all_built w \<Longrightarrow> built (files (bucket_at w b))"
  by (simp add: all_built_def)

lemma all_built_consume [simp]: "all_built (consume w f m) = all_built w"
  by (simp add: consume_def)

lemma all_built_markAsExists: "all_built w \<Longrightarrow> all_built (markAsExists w f)"
  by (simp add: markAsExists_def all_built_update_bucket all_built_D built_files_assign)

lemma all_built_invoke:
  assumes "all_built w"
  shows "all_built (snd (invoke w f c))"
proof (cases c)
  case Delete
  with assms show ?thesis
    by (simp add: respond_sel delete_def shift_queue_eq all_built_update_bucket all_built_D
        built_delete split: list.splits sum.splits)
next
  case Exists
  with assms show ?thesis
    by (simp add: respond_sel exists_def shift_queue_eq split: list.splits)
next
  case (Download d)
  with assms show ?thesis
    by (simp add: respond_sel download_def shift_queue_eq split: list.splits sum.splits option.splits)
next
  case GetSignedUrl
  with assms show ?thesis
    by (simp add: respond_sel getSignedUrl_def shift_queue_eq split: list.splits sum.splits)
next
  case (Save d options)
  with assms show ?thesis
    by (simp add: respond_sel save_def shift_queue_eq Let_def all_built_markAsExists
        split: list.splits)
next
  case (SetMetadata md)
  with assms show ?thesis
    by (simp add: respond_sel setMetadata_def shift_queue_eq Let_def split: list.splits sum.splits)
next
  case GetMetadata
  with assms show ?thesis
    by (simp add: respond_sel getMetadata_def shift_queue_eq split: list.splits sum.splits)
qed

lemma all_built_file_of: "all_built w \<Longrightarrow> all_built (snd (file_of w b n force))"
  by (auto simp: file_of_def new_MockFile_def all_built_update_bucket all_built_D
      built_files_assign split: option.splits)

lemma all_built_put: "all_built w \<Longrightarrow> all_built (snd (put w b n c md))"
  by (simp add: put_eq Let_def new_MockFile_def all_built_update_bucket all_built_D
      built_files_assign)

lemma all_built_deleteFiles: "all_built w \<Longrightarrow> all_built (deleteFiles w b q)"
  by (simp add: deleteFiles_def all_built_update_bucket all_built_D built_without_prefix)

lemma all_built_bucket_of: "all_built w \<Longrightarrow> all_built (snd (bucket_of w s n))"
  by (auto simp: bucket_of_def new_MockBucket_def update_storage_def all_built_def built_empty Let_def
      split: option.splits)

lemma all_built_save: "all_built w \<Longrightarrow> all_built (snd (save w f d options))"
  using all_built_invoke [of w f "Save d options"] by (simp add: respond_sel)

lemma all_built_copy:
  assumes "all_built w"
  shows "all_built (snd (copy w f dest options))"
proof (cases "copy_target w f dest")
  case (Inl e)
  with assms show ?thesis by (simp add: copy_def)
next
  case (Inr t)
  obtain tb tn where t: "t = (tb, tn)" by (cases t)
  obtain r1 w1 where d: "download w f None = (r1, w1)" by (cases "download w f None")
  have b1: "all_built w1"
    using all_built_invoke [OF assms, of f "Download None"] d by (simp add: respond_sel)
  show ?thesis
  proof (cases r1)
    case (Inl e)
    with Inr t d b1 show ?thesis by (simp add: copy_def)
  next
    case c: (Inr c)
    obtain r2 w2 where g: "getMetadata w1 f = (r2, w2)" by (cases "getMetadata w1 f")
    have b2: "all_built w2"
      using all_built_invoke [OF b1, of f GetMetadata] g by (simp add: respond_sel)
    show ?thesis
    proof (cases r2)
      case (Inl e)
      with Inr t d c g b2 show ?thesis by (simp add: copy_def)
    next
      case m: (Inr md)
      obtain v w3 where fo: "file_of w2 tb tn False = (v, w3)"
        by (cases "file_of w2 tb tn False")
      have b3: "all_built w3"
        using all_built_file_of [OF b2, of tb tn False] fo by simp
      show ?thesis
      proof (cases v)
        case Foreign
        with Inr t d c g m fo b3 show ?thesis
          by (simp add: copy_def Let_def)
      next
        case (Instance nf)
        let ?options = "JObj [(''metadata'',
            JObj (assign_props (assign_props [] (spread md)) (spread (optional_metadata options))))]"
        obtain r4 w4 where sv: "save w3 nf (DataBuffer c) ?options = (r4, w4)"
          by (cases "save w3 nf (DataBuffer c) ?options")
        have "all_built w4"
          using all_built_save [OF b3, of nf "DataBuffer c" ?options] sv by simp
        with Inr t d c g m fo Instance sv show ?thesis
          by (cases r4) (simp_all add: copy_def Let_def)
      qed
    qed
  qed
qed

section \<open>The claims\<close>

text \<open>
  C1.  For each of the seven mockable methods, on any file and in any state:
  an error enqueued by \<^verbatim>\<open>mockErrorOnce\<close> makes the next call of that method fail
  with exactly this error and is consumed by it, the state being again the one
  before the enqueuing, so that the call after it runs as if nothing had been
  enqueued; errors fire in the order of their enqueuing, the pending ones first,
  after which the queue is empty; and the queue and the outcome of a call of any
  other method are as without the enqueuing.
\<close>

theorem mockErrorOnce_fires_once_in_order:
  "(mockQueues (file_at w f) (method_of c) = [] \<longrightarrow>
      invoke (mockErrorOnce w f (method_of c) e) f c = (Inl e, w)
      \<and> invoke_times 2 (mockErrorOnce w f (method_of c) e) f c =
          ([Inl e, fst (invoke w f c)], snd (invoke w f c)))
   \<and> (mockQueues (file_at w f) (method_of c) = map MockError es \<longrightarrow>
        invoke_times (Suc (length es)) (mockErrorOnce w f (method_of c) e) f c =
          (map Inl (es @ [e]), mockReset w f (Some (method_of c))))
   \<and> (method_of c' \<noteq> method_of c \<longrightarrow>
        mockQueues (file_at (mockErrorOnce w f (method_of c) e) f) (method_of c') =
          mockQueues (file_at w f) (method_of c')
        \<and> invoke (mockErrorOnce w f (method_of c) e) f c' =
            (fst (invoke w f c'), mockErrorOnce (snd (invoke w f c')) f (method_of c) e))"
proof (intro conjI impI)
  assume empty: "mockQueues (file_at w f) (method_of c) = []"
  have q: "mockQueues (file_at (mockErrorOnce w f (method_of c) e) f) (method_of c) = [MockError e]"
    using empty by (simp add: mockErrorOnce_queue)
  show first: "invoke (mockErrorOnce w f (method_of c) e) f c = (Inl e, w)"
    using invoke_head [OF q] empty by (simp add: consume_mockErrorOnce_empty)
  show "invoke_times 2 (mockErrorOnce w f (method_of c) e) f c =
          ([Inl e, fst (invoke w f c)], snd (invoke w f c))"
    by (simp add: numeral_2_eq_2 first split: prod.splits)
next
  assume pending: "mockQueues (file_at w f) (method_of c) = map MockError es"
  have q: "mockQueues (file_at (mockErrorOnce w f (method_of c) e) f) (method_of c) =
             map MockError (es @ [e])"
    using pending by (simp add: mockErrorOnce_queue)
  show "invoke_times (Suc (length es)) (mockErrorOnce w f (method_of c) e) f c =
          (map Inl (es @ [e]), mockReset w f (Some (method_of c)))"
    using invoke_times_fifo [OF q] by (simp add: mockReset_mockErrorOnce)
next
  assume other: "method_of c' \<noteq> method_of c"
  then show "mockQueues (file_at (mockErrorOnce w f (method_of c) e) f) (method_of c') =
          mockQueues (file_at w f) (method_of c')"
    by (simp add: mockErrorOnce_queue)
  from other show "invoke (mockErrorOnce w f (method_of c) e) f c' =
            (fst (invoke w f c'), mockErrorOnce (snd (invoke w f c')) f (method_of c) e)"
    by (rule invoke_commute)
qed

theorem mockErrorOnce_fires_once_in_order_witness:
  "invoke (mockErrorOnce test_world 0 M_save (Error ''Failed to save'')) 0
       (Save (DataString ''Hello, world!'') JUndefined) =
     (Inl (Error ''Failed to save''), test_world)
   \<and> invoke_times 2
        (mockErrorOnce (mockErrorOnce test_world 0 M_save (Error ''first'')) 0 M_save
           (Error ''second'')) 0
        (Save (DataString ''Hello, world!'') JUndefined) =
       ([Inl (Error ''first''), Inl (Error ''second'')], test_world)
   \<and> invoke (mockErrorOnce test_world 0 M_save (Error ''Failed to save'')) 0 Exists =
       (Inr (Existence True), mockErrorOnce test_world 0 M_save (Error ''Failed to save''))"
proof -
  let ?c = "Save (DataString ''Hello, world!'') JUndefined"
  let ?w1 = "mockErrorOnce test_world 0 M_save (Error ''first'')"
  have empty: "mockQueues (file_at test_world 0) (method_of ?c) = []"
    by (simp add: test_world_fields)
  have pending: "mockQueues (file_at ?w1 0) (method_of ?c) = map MockError [Error ''first'']"
    by (simp add: mockErrorOnce_queue test_world_fields)
  have other: "method_of Exists \<noteq> method_of ?c"
    by simp
  have reset: "mockReset ?w1 0 (Some M_save) = test_world"
    by (simp add: mockReset_mockErrorOnce mockReset_empty test_world_fields)
  have ex: "invoke test_world 0 Exists = (Inr (Existence True), test_world)"
    by (simp add: test_world_exists respond_def)
  from mockErrorOnce_fires_once_in_order [of test_world 0 ?c "Error ''Failed to save''" "[]" Exists]
    mockErrorOnce_fires_once_in_order [of ?w1 0 ?c "Error ''second''" "[Error ''first'']" Exists]
    empty pending other reset ex
  show ?thesis by (simp add: numeral_2_eq_2)
qed




text \<open>
  C3.  A failed call of one of the seven methods, whatever the error, leaves the
  state as it was but for the head of the queue of that method, which is removed:
  the files of every bucket and the contents and metadata of every file are as
  before.  The same holds for a failed \<^verbatim>\<open>copy\<close>, which consumes at most one queue
  entry.
\<close>

theorem failed_call_keeps_data:
  "(invoke w f c = (Inl e, w') \<longrightarrow>
      w' = consume w f (method_of c)
      \<and> bucket_at w' = bucket_at w
      \<and> (\<forall>g. contents (file_at w' g) = contents (file_at w g)
             \<and> metadata (file_at w' g) = metadata (file_at w g)))
   \<and> (copy w f dest om = (Inl e, w'') \<longrightarrow>
        (w'' = w \<or> (\<exists>g m. w'' = consume w g m))
        \<and> bucket_at w'' = bucket_at w
        \<and> (\<forall>g. contents (file_at w'' g) = contents (file_at w g)
               \<and> metadata (file_at w'' g) = metadata (file_at w g)))"
proof (intro conjI impI)
  assume "invoke w f c = (Inl e, w')"
  then have w': "w' = consume w f (method_of c)"
    by (rule invoke_fails)
  then show "w' = consume w f (method_of c)" .
  from w' show "bucket_at w' = bucket_at w" by simp
  from w' show "\<forall>g. contents (file_at w' g) = contents (file_at w g)
             \<and> metadata (file_at w' g) = metadata (file_at w g)" by simp
next
  assume "copy w f dest om = (Inl e, w'')"
  then have w'': "w'' = w \<or> (\<exists>g m. w'' = consume w g m)"
    by (rule copy_fails)
  then show "w'' = w \<or> (\<exists>g m. w'' = consume w g m)" .
  from w'' show "bucket_at w'' = bucket_at w" by auto
  from w'' show "\<forall>g. contents (file_at w'' g) = contents (file_at w g)
               \<and> metadata (file_at w'' g) = metadata (file_at w g)" by auto
qed

theorem failed_call_keeps_data_witness:
  "invoke (mockErrorOnce test_world 0 M_save (Error ''Failed to save'')) 0
       (Save (DataString ''Hello, world!'') JUndefined) =
     (Inl (Error ''Failed to save''), test_world)
   \<and> copy (mockErrorOnce test_world 0 M_download (Error ''Download error'')) 0
       (ToName ''copied-file.txt'') JUndefined =
     (Inl (Error ''Download error''), test_world)
   \<and> bucket_at test_world =
       bucket_at (mockErrorOnce test_world 0 M_save (Error ''Failed to save''))
   \<and> (\<forall>g. contents (file_at test_world g) =
            contents (file_at (mockErrorOnce test_world 0 M_download (Error ''Download error'')) g)
          \<and> metadata (file_at test_world g) =
            metadata (file_at (mockErrorOnce test_world 0 M_download (Error ''Download error'')) g))"
proof -
  let ?c = "Save (DataString ''Hello, world!'') JUndefined"
  let ?ws = "mockErrorOnce test_world 0 M_save (Error ''Failed to save'')"
  let ?wd = "mockErrorOnce test_world 0 M_download (Error ''Download error'')"
  have qs: "mockQueues (file_at ?ws 0) M_save = MockError (Error ''Failed to save'') # []"
    by (simp add: mockErrorOnce_queue test_world_fields)
  have qd: "mockQueues (file_at ?wd 0) M_download = MockError (Error ''Download error'') # []"
    by (simp add: mockErrorOnce_queue test_world_fields)
  have cs: "consume ?ws 0 M_save = test_world"
    by (simp add: consume_mockErrorOnce_empty test_world_fields)
  have cd: "consume ?wd 0 M_download = test_world"
    by (simp add: consume_mockErrorOnce_empty test_world_fields)
  have s: "invoke ?ws 0 ?c = (Inl (Error ''Failed to save''), test_world)"
    using save_head [OF qs] by (simp add: respond_def cs)
  have d: "copy ?wd 0 (ToName ''copied-file.txt'') JUndefined =
             (Inl (Error ''Download error''), test_world)"
    using download_head [OF qd] by (simp add: copy_def copy_target_def cd)
  from failed_call_keeps_data [of ?ws 0 ?c "Error ''Failed to save''" test_world] s
  have 1: "bucket_at test_world = bucket_at ?ws"
    by blast
  from failed_call_keeps_data [of ?wd 0 _ "Error ''Download error''" _
      "ToName ''copied-file.txt''" JUndefined test_world] d
  have 2: "\<forall>g. contents (file_at test_world g) = contents (file_at ?wd g)
          \<and> metadata (file_at test_world g) = metadata (file_at ?wd g)"
    by blast
  from s d 1 2 show ?thesis by blast
qed

text \<open>
  C4 says that \<^verbatim>\<open>setMetadata({a: 1})\<close> and \<^verbatim>\<open>setMetadata({b: 2})\<close> give the custom metadata
  \<^verbatim>\<open>{a: 1, b: 2}\<close>, and that \<^verbatim>\<open>save(data, {metadata: {c: 3}})\<close> then makes the metadata
  \<^verbatim>\<open>{metadata: {c: 3}}\<close>.  On the file of the tests the two calls add \<^verbatim>\<open>a\<close> and \<^verbatim>\<open>b\<close> at
  the top level, beside custom metadata that stay empty, and the \<^verbatim>\<open>save\<close> makes the
  metadata \<^verbatim>\<open>{c: 3}\<close>, the value of the option.
\<close>

theorem setMetadata_then_save_counterexample:
  "metadata (file_at merged_twice 0) =
     JObj [(''metadata'', JObj []), (''a'', JNum 1), (''b'', JNum 2)]
   \<and> prop_metadata (metadata (file_at merged_twice 0)) = Inr (JObj [])
   \<and> metadata (file_at saved_over 0) = JObj [(''c'', JNum 3)]"
proof -
  have "metadata (file_at saved_over 0) = JObj [(''c'', JNum 3)]"
    unfolding saved_over_def
    by (simp add: save_empty merged_twice_fields update_file_def)
  then show ?thesis
    by (simp add: merged_twice_fields obj_get_def)
qed

text \<open>
  C4, as the code has it.  On a file that is in its bucket, with no error
  queued, \<^verbatim>\<open>setMetadata\<close> returns and stores an object in which every top-level key
  but \<^verbatim>\<open>metadata\<close> has the value of the new metadata when these have the key, and
  its old value otherwise; under \<^verbatim>\<open>metadata\<close> it has an object that relates in this
  same way the custom metadata of the new and of the old metadata.  The contents
  stay.  \<^verbatim>\<open>save\<close> with options whose \<^verbatim>\<open>metadata\<close> is truthy makes this value the
  metadata of the file, whatever they were, and leaves them otherwise.
\<close>

theorem setMetadata_merges_save_replaces:
  "(in_bucket w f \<and> mockQueues (file_at w f) M_setMetadata = []
      \<and> prop_metadata (metadata (file_at w f)) = Inr oc \<and> prop_metadata md = Inr nc
      \<and> well_formed (metadata (file_at w f)) \<and> well_formed md
      \<and> well_formed oc \<and> well_formed nc \<longrightarrow>
      (\<exists>R C w'. setMetadata w f md = (Inr (JObj R), w')
          \<and> metadata (file_at w' f) = JObj R
          \<and> contents (file_at w' f) = contents (file_at w f)
          \<and> obj_get R ''metadata'' = Some (JObj C)
          \<and> (\<forall>k. k \<noteq> ''metadata'' \<longrightarrow>
                obj_get R k = overwrite (spread (metadata (file_at w f))) (spread md) k)
          \<and> (\<forall>k. obj_get C k = overwrite (spread oc) (spread nc) k)))
   \<and> (mockQueues (file_at w f) M_save = [] \<longrightarrow>
        metadata (file_at (snd (save w f d options)) f) =
          (if truthy (optional_metadata options) then optional_metadata options
           else metadata (file_at w f)))"
proof (intro conjI impI)
  assume a: "in_bucket w f \<and> mockQueues (file_at w f) M_setMetadata = []
      \<and> prop_metadata (metadata (file_at w f)) = Inr oc \<and> prop_metadata md = Inr nc
      \<and> well_formed (metadata (file_at w f)) \<and> well_formed md
      \<and> well_formed oc \<and> well_formed nc"
  let ?old = "metadata (file_at w f)"
  let ?C = "merge_top oc nc"
  let ?R = "obj_set (merge_top ?old md) ''metadata'' (JObj ?C)"
  let ?w' = "update_file w f (\<lambda>this. this\<lparr>metadata := JObj ?R\<rparr>)"
  from a have oc: "custom_of ?old = oc" and nc: "custom_of md = nc"
    by (simp_all add: prop_metadata_custom)
  from a have "setMetadata w f md = (Inr (merged_metadata ?old md),
      update_file w f (\<lambda>this. this\<lparr>metadata := merged_metadata ?old md\<rparr>))"
    using setMetadata_empty [of w f oc md nc] by simp
  then have res: "setMetadata w f md = (Inr (JObj ?R), ?w')"
    by (simp add: merged_metadata_def oc nc)
  have m: "metadata (file_at ?w' f) = JObj ?R" and c: "contents (file_at ?w' f) = contents (file_at w f)"
    by (simp_all add: update_file_def)
  have custom: "obj_get ?R ''metadata'' = Some (JObj ?C)"
    by (simp add: obj_get_obj_set)
  have top: "\<forall>k. k \<noteq> ''metadata'' \<longrightarrow> obj_get ?R k = overwrite (spread ?old) (spread md) k"
    using a by (simp add: obj_get_obj_set obj_get_merge_top)
  have nested: "\<forall>k. obj_get ?C k = overwrite (spread oc) (spread nc) k"
    using a by (simp add: obj_get_merge_top)
  from res m c custom top nested
  show "\<exists>R C w'. setMetadata w f md = (Inr (JObj R), w')
          \<and> metadata (file_at w' f) = JObj R
          \<and> contents (file_at w' f) = contents (file_at w f)
          \<and> obj_get R ''metadata'' = Some (JObj C)
          \<and> (\<forall>k. k \<noteq> ''metadata'' \<longrightarrow>
                obj_get R k = overwrite (spread (metadata (file_at w f))) (spread md) k)
          \<and> (\<forall>k. obj_get C k = overwrite (spread oc) (spread nc) k)"
    by blast
next
  assume "mockQueues (file_at w f) M_save = []"
  then show "metadata (file_at (snd (save w f d options)) f) =
          (if truthy (optional_metadata options) then optional_metadata options
           else metadata (file_at w f))"
    by (simp add: save_empty update_file_def)
qed

theorem setMetadata_merges_save_replaces_witness:
  "(\<exists>R C w'. setMetadata custom_once 0 (JObj [(''metadata'', JObj [(''b'', JNum 2)])]) =
                (Inr (JObj R), w')
        \<and> metadata (file_at w' 0) = JObj R
        \<and> obj_get R ''metadata'' = Some (JObj C)
        \<and> obj_get C ''a'' = Some (JNum 1) \<and> obj_get C ''b'' = Some (JNum 2)
        \<and> obj_get C ''c'' = None)
   \<and> metadata (file_at (snd (save custom_once 0 (DataString ''data'')
        (JObj [(''metadata'', JObj [(''metadata'', JObj [(''c'', JNum 3)])])]))) 0) =
       JObj [(''metadata'', JObj [(''c'', JNum 3)])]"
proof -
  let ?md = "JObj [(''metadata'', JObj [(''b'', JNum 2)])]"
  let ?oc = "JObj [(''a'', JNum 1)]"
  let ?nc = "JObj [(''b'', JNum 2)]"
  let ?options = "JObj [(''metadata'', JObj [(''metadata'', JObj [(''c'', JNum 3)])])]"
  note t = setMetadata_merges_save_replaces [of custom_once 0 ?oc ?md ?nc "DataString ''data''" ?options]
  have hyps: "in_bucket custom_once 0 \<and> mockQueues (file_at custom_once 0) M_setMetadata = []
      \<and> prop_metadata (metadata (file_at custom_once 0)) = Inr ?oc \<and> prop_metadata ?md = Inr ?nc
      \<and> well_formed (metadata (file_at custom_once 0)) \<and> well_formed ?md
      \<and> well_formed ?oc \<and> well_formed ?nc"
    by (simp add: custom_once_fields obj_get_def well_formed_JObj)
  from t hyps obtain R C w' where
    res: "setMetadata custom_once 0 ?md = (Inr (JObj R), w')"
    and m: "metadata (file_at w' 0) = JObj R"
    and c: "obj_get R ''metadata'' = Some (JObj C)"
    and n: "\<forall>k. obj_get C k = overwrite (spread ?oc) (spread ?nc) k"
    by blast
  from n have "obj_get C ''a'' = Some (JNum 1)" "obj_get C ''b'' = Some (JNum 2)"
    "obj_get C ''c'' = None"
    by (simp_all add: overwrite_def obj_get_def)
  with res m c have 1: "\<exists>R C w'. setMetadata custom_once 0 ?md = (Inr (JObj R), w')
        \<and> metadata (file_at w' 0) = JObj R
        \<and> obj_get R ''metadata'' = Some (JObj C)
        \<and> obj_get C ''a'' = Some (JNum 1) \<and> obj_get C ''b'' = Some (JNum 2)
        \<and> obj_get C ''c'' = None"
    by blast
  from t have 2: "metadata (file_at (snd (save custom_once 0 (DataString ''data'') ?options)) 0) =
       JObj [(''metadata'', JObj [(''c'', JNum 3)])]"
    by (simp add: custom_once_fields)
  from 1 2 show ?thesis by blast
qed







text \<open>
  C7.  \<^verbatim>\<open>deleteFiles\<close> removes from the files of the bucket exactly the names that
  start with the prefix, all of them when the prefix is empty or absent, and
  leaves the other names, the other buckets and every file object as they are;
  when no name matches it changes nothing.  So \<^verbatim>\<open>exists\<close> afterwards answers as
  before, but for the files of the bucket whose name starts with the prefix:
  for these it answers false, unless the files object inherits a value under
  the name, which no removal takes away.
\<close>

theorem deleteFiles_removes_prefixed:
  "obj_get (files (bucket_at (deleteFiles w b q) b)) n =
     (if startsWith n (the_prefix q) then None else obj_get (files (bucket_at w b)) n)
   \<and> (\<forall>b'. b' \<noteq> b \<longrightarrow> bucket_at (deleteFiles w b q) b' = bucket_at w b')
   \<and> file_at (deleteFiles w b q) = file_at w
   \<and> (the_prefix q = [] \<longrightarrow> files (bucket_at (deleteFiles w b q) b) = [])
   \<and> (list_all (\<lambda>entry. \<not> startsWith (fst entry) (the_prefix q)) (files (bucket_at w b)) \<longrightarrow>
        deleteFiles w b q = w)
   \<and> (mockQueues (file_at w f) M_exists = [] \<longrightarrow>
        exists (deleteFiles w b q) f =
          (Inr (in_bucket w f
                \<and> \<not> (bucket (file_at w f) = b
                      \<and> startsWith (name (file_at w f)) (the_prefix q)
                      \<and> inherited w b (name (file_at w f)) = None)),
           deleteFiles w b q))"
proof (intro conjI impI allI)
  show "obj_get (files (bucket_at (deleteFiles w b q) b)) n =
     (if startsWith n (the_prefix q) then None else obj_get (files (bucket_at w b)) n)"
    by (simp add: deleteFiles_files obj_get_def map_of_without_prefix)
next
  fix b' assume "b' \<noteq> b"
  then show "bucket_at (deleteFiles w b q) b' = bucket_at w b'" by simp
next
  show "file_at (deleteFiles w b q) = file_at w" by simp
next
  assume "the_prefix q = []"
  then show "files (bucket_at (deleteFiles w b q) b) = []"
    by (simp add: deleteFiles_files)
next
  assume "list_all (\<lambda>entry. \<not> startsWith (fst entry) (the_prefix q)) (files (bucket_at w b))"
  then have "filter (\<lambda>entry. \<not> startsWith (fst entry) (the_prefix q)) (files (bucket_at w b)) =
      files (bucket_at w b)"
    by (rule filter_none)
  then show "deleteFiles w b q = w"
    by (simp add: deleteFiles_def the_prefix_def update_bucket_same)
next
  assume "mockQueues (file_at w f) M_exists = []"
  then show "exists (deleteFiles w b q) f =
          (Inr (in_bucket w f
                \<and> \<not> (bucket (file_at w f) = b
                      \<and> startsWith (name (file_at w f)) (the_prefix q)
                      \<and> inherited w b (name (file_at w f)) = None)),
           deleteFiles w b q)"
    by (simp add: exists_empty in_bucket_deleteFiles)
qed

theorem deleteFiles_removes_prefixed_witness:
  "fst (exists (deleteFiles three_files 0 (Some ''test-'')) 0) = Inr False
   \<and> fst (exists (deleteFiles three_files 0 (Some ''test-'')) (Suc 0)) = Inr False
   \<and> fst (exists (deleteFiles three_files 0 (Some ''test-'')) (Suc (Suc 0))) = Inr True
   \<and> files (bucket_at (deleteFiles three_files 0 None) 0) = []
   \<and> deleteFiles three_files 0 (Some ''other-'') = three_files
   \<and> bucket_at (deleteFiles three_files 0 None) (Suc 0) = bucket_at three_files (Suc 0)"
proof -
  note t = deleteFiles_removes_prefixed [of three_files 0 "Some ''test-''"]
  have plain: "inherited three_files 0 ''test-1'' = None" "inherited three_files 0 ''test-2'' = None"
    by (simp_all add: inherited_ordinary three_files_ordinary plain_names)
  from t [of _ 0] have 1: "fst (exists (deleteFiles three_files 0 (Some ''test-'')) 0) = Inr False"
    by (simp add: three_files_fields three_files_present the_prefix_def startsWith_def plain)
  from t [of _ "Suc 0"]
  have 2: "fst (exists (deleteFiles three_files 0 (Some ''test-'')) (Suc 0)) = Inr False"
    by (simp add: three_files_fields three_files_present the_prefix_def startsWith_def plain)
  from t [of _ "Suc (Suc 0)"]
  have 3: "fst (exists (deleteFiles three_files 0 (Some ''test-'')) (Suc (Suc 0))) = Inr True"
    by (simp add: three_files_fields three_files_present the_prefix_def startsWith_def)
  from deleteFiles_removes_prefixed [of three_files 0 None]
  have 4: "files (bucket_at (deleteFiles three_files 0 None) 0) = []"
    and 6: "bucket_at (deleteFiles three_files 0 None) (Suc 0) = bucket_at three_files (Suc 0)"
    by (simp_all add: the_prefix_def)
  from deleteFiles_removes_prefixed [of three_files 0 "Some ''other-''"]
  have 5: "deleteFiles three_files 0 (Some ''other-'') = three_files"
    by (simp add: three_files_fields the_prefix_def startsWith_def)
  from 1 2 3 4 5 6 show ?thesis by blast
qed

text \<open>
  C8 says that the listing is in insertion order.  It is not when names are
  array indices: the file \<^verbatim>\<open>2\<close> is put first and listed alone, then the file \<^verbatim>\<open>1\<close>
  is put, and is listed before it.
\<close>

theorem getFiles_insertion_order_counterexample:
  "getFiles (snd (put bucket_world 0 ''2'' None JUndefined)) 0 None = [Instance 0]
   \<and> getFiles two_numbered 0 None = [Instance (Suc 0), Instance 0]
   \<and> name (file_at two_numbered 0) = ''2''
   \<and> name (file_at two_numbered (Suc 0)) = ''1''"
  by (simp add: getFiles_eq two_numbered_fields the_prefix_def)

text \<open>
  C8, as the code has it.  \<^verbatim>\<open>getFiles\<close> cannot fail and changes nothing.  For a
  bucket whose files object has been built from the empty object by assignments
  and deletes, as it is in every state that the library reaches, it returns
  what the object holds under those of its keys that start with the prefix (all
  keys when the prefix is empty or absent), one value for each such key and no
  other value, in the order in which the object enumerates its keys: keys that
  are array indices first, in ascending numeric order, then the other keys in
  the order in which they were created.  An assignment under \<^verbatim>\<open>__proto__\<close> creates
  no key.  The keys are the names of the members as far as the names are
  ordinary: a file of the bucket whose name \<^verbatim>\<open>Object.prototype\<close> has not, this being
  still the prototype of the files object, is in the bucket exactly when its
  name is a key.
\<close>

theorem getFiles_lists_members_in_key_order:
  assumes "files (bucket_at w b) = replay cs []"
  shows "length (getFiles w b q) =
           length (filter (\<lambda>k. startsWith k (the_prefix q)) (member_names w b))
    \<and> (\<forall>i < length (getFiles w b q).
          obj_get (files (bucket_at w b))
            (filter (\<lambda>k. startsWith k (the_prefix q)) (member_names w b) ! i) =
          Some (getFiles w b q ! i))
    \<and> set (getFiles w b q) =
        {f. \<exists>k. startsWith k (the_prefix q) \<and> obj_get (files (bucket_at w b)) k = Some f}
    \<and> sorted_wrt key_before (member_names w b)
    \<and> filter other_key (member_names w b) = filter other_key (created cs [])
    \<and> set (member_names w b) = set (created cs [])
    \<and> distinct (member_names w b)
    \<and> (\<forall>f. bucket (file_at w f) = b \<and> ordinary w b (name (file_at w f)) \<longrightarrow>
           in_bucket w f = (name (file_at w f) \<in> set (member_names w b)))"
proof -
  let ?ps = "files (bucket_at w b)"
  let ?match = "filter (\<lambda>entry. startsWith (fst entry) (the_prefix q)) ?ps"
  have follow: "keys_follow ?ps (created cs [])"
    unfolding assms using keys_follow_empty by (rule keys_follow_replay)
  then have dist: "distinct (map fst ?ps)"
    by (simp add: keys_follow_def)
  have names: "filter (\<lambda>k. startsWith k (the_prefix q)) (member_names w b) = map fst ?match"
    by (simp add: member_names_def matching_names)
  have len: "length (getFiles w b q) =
           length (filter (\<lambda>k. startsWith k (the_prefix q)) (member_names w b))"
    by (simp add: names getFiles_eq)
  have nth: "\<forall>i < length (getFiles w b q).
          obj_get ?ps (filter (\<lambda>k. startsWith k (the_prefix q)) (member_names w b) ! i) =
          Some (getFiles w b q ! i)"
  proof (intro allI impI)
    fix i assume "i < length (getFiles w b q)"
    then have i: "i < length ?match" by (simp add: getFiles_eq)
    from map_of_nth_filter [OF dist i] i
    show "obj_get ?ps (filter (\<lambda>k. startsWith k (the_prefix q)) (member_names w b) ! i) =
          Some (getFiles w b q ! i)"
      by (simp add: names getFiles_eq obj_get_def)
  qed
  have members: "set (getFiles w b q) =
        {f. \<exists>k. startsWith k (the_prefix q) \<and> obj_get ?ps k = Some f}"
    using dist by (auto simp: getFiles_eq obj_get_def image_iff)
  have present: "\<forall>f. bucket (file_at w f) = b \<and> ordinary w b (name (file_at w f)) \<longrightarrow>
           in_bucket w f = (name (file_at w f) \<in> set (member_names w b))"
    by (auto simp: in_bucket_ordinary member_names_def obj_get_def map_of_eq_None_iff)
  from follow len nth members present show ?thesis
    by (simp add: keys_follow_def member_names_def)
qed

theorem getFiles_lists_members_in_key_order_witness:
  "files (bucket_at two_numbered 0) =
     replay [Assign ''2'' (Instance 0), Assign ''1'' (Instance (Suc 0))] []
   \<and> created [Assign ''2'' (Instance (0::nat)), Assign ''1'' (Instance (Suc 0))] [] = [''2'', ''1'']
   \<and> member_names two_numbered 0 = [''1'', ''2'']
   \<and> sorted_wrt key_before (member_names two_numbered 0)
   \<and> length (getFiles two_numbered 0 (Some ''1'')) = 1
   \<and> obj_get (files (bucket_at two_numbered 0)) ''1'' = Some (getFiles two_numbered 0 (Some ''1'') ! 0)
   \<and> set (member_names two_numbered 0) = {''2'', ''1''}
   \<and> in_bucket two_numbered (Suc 0)"
proof -
  have built: "files (bucket_at two_numbered 0) =
      replay [Assign ''2'' (Instance 0), Assign ''1'' (Instance (Suc 0))] []"
    by (simp add: two_numbered_fields assign_own_def obj_set_def small_indices)
  have made: "created [Assign ''2'' (Instance (0::nat)), Assign ''1'' (Instance (Suc 0))] [] =
      [''2'', ''1'']"
    by simp
  have names: "member_names two_numbered 0 = [''1'', ''2'']"
    by (simp add: member_names_def two_numbered_fields)
  have match: "filter (\<lambda>k. startsWith k (the_prefix (Some ''1''))) (member_names two_numbered 0) = [''1'']"
    by (simp add: names the_prefix_def startsWith_def)
  note t = getFiles_lists_members_in_key_order [OF built, of "Some ''1''"]
  from t have 1: "sorted_wrt key_before (member_names two_numbered 0)"
    by blast
  from t have 2: "length (getFiles two_numbered 0 (Some ''1'')) = 1"
    by (simp add: match)
  from t 2 have 3: "obj_get (files (bucket_at two_numbered 0)) ''1'' =
      Some (getFiles two_numbered 0 (Some ''1'') ! 0)"
    by (simp add: match)
  from t have 4: "set (member_names two_numbered 0) = {''2'', ''1''}"
    by (simp add: made)
  have "ordinary two_numbered 0 ''1''"
    by (simp add: ordinary_def two_numbered_fields plain_names)
  with t have 5: "in_bucket two_numbered (Suc 0)"
    by (simp add: two_numbered_fields names)
  from built made names 1 2 3 4 5 show ?thesis by blast
qed

text \<open>
  C9 says that \<^verbatim>\<open>file(name)\<close> caches the handle that it creates, before the file is
  in the bucket.  It does not: two lookups of the same name give two files, and
  an error enqueued on the first is not seen by the second.  Nor does
  \<^verbatim>\<open>bucket(name)\<close> return a bucket for every name: for \<^verbatim>\<open>constructor\<close> it returns the
  method that \<^verbatim>\<open>Object.prototype\<close> has under this name, and creates nothing.
\<close>

theorem file_lookup_not_cached_counterexample:
  "fst first_lookup = Instance 0 \<and> fst second_lookup = Instance (Suc 0)
   \<and> fst (exists (mockErrorOnce (snd second_lookup) 0 M_exists (Error ''Exists error'')) 0) =
       Inl (Error ''Exists error'')
   \<and> fst (exists (mockErrorOnce (snd second_lookup) 0 M_exists (Error ''Exists error'')) (Suc 0)) =
       Inr False
   \<and> bucket_of bucket_world 0 ''constructor'' = (Some Foreign, bucket_world)"
proof -
  let ?w = "mockErrorOnce (snd second_lookup) 0 M_exists (Error ''Exists error'')"
  have 1: "fst first_lookup = Instance 0"
    by (rule first_lookup_eq)
  have 2: "fst second_lookup = Instance (Suc 0)"
    by (rule second_lookup_eq)
  have "mockQueues (file_at ?w 0) M_exists = [MockError (Error ''Exists error'')]"
    by (simp add: mockErrorOnce_queue second_lookup_eq first_lookup_eq)
  then have 3: "fst (exists ?w 0) = Inl (Error ''Exists error'')"
    by (simp add: exists_def shift_queue_eq)
  have "mockQueues (file_at ?w (Suc 0)) M_exists = []"
    by (simp add: mockErrorOnce_def update_file_def second_lookup_eq)
  moreover have "\<not> in_bucket ?w (Suc 0)"
    by (simp add: in_bucket_def files_at_def inherited_def second_lookup_eq bucket_world_fields
        plain_names obj_get_def)
  ultimately have 4: "fst (exists ?w (Suc 0)) = Inr False"
    by (simp add: exists_empty)
  have 5: "bucket_of bucket_world 0 ''constructor'' = (Some Foreign, bucket_world)"
    by (simp add: bucket_of_inherited inherited_names bucket_world_fields obj_get_def)
  from 1 2 3 4 5 show ?thesis by blast
qed

text \<open>
  C9, as the code has it, for the names that \<^verbatim>\<open>Object.prototype\<close> has not.  For
  such a name \<^verbatim>\<open>bucket(name)\<close> never fails and is idempotent: it returns the bucket
  stored under the name, creating and storing an empty one at the first access,
  and a second call returns the same bucket and changes nothing.  \<^verbatim>\<open>file(name)\<close>
  returns what the files object holds under the name when it has this key, and
  changes nothing.  When it has not, and the name is ordinary for the bucket
  (\<^verbatim>\<open>Object.prototype\<close> has no property of this name and is still the prototype of
  the files object), it constructs a new file with default state and empty
  queues and does not store it: the next call constructs another one.  With
  \<^verbatim>\<open>forceExists\<close> the new file is stored, and later calls return it.
\<close>

theorem handles_resolve_by_lookup:
  "(n \<notin> set Object_prototype_names \<longrightarrow>
      (\<exists>b. fst (bucket_of w s n) = Some (Instance b)
          \<and> bucket_of (snd (bucket_of w s n)) s n = (Some (Instance b), snd (bucket_of w s n))))
   \<and> (obj_get (buckets (storage_at w s)) n = Some b0 \<longrightarrow>
        bucket_of w s n = (Some (Instance b0), w))
   \<and> (n \<notin> set Object_prototype_names \<and> obj_get (buckets (storage_at w s)) n = None \<longrightarrow>
        fst (bucket_of w s n) = Some (Instance (next_bucket w))
        \<and> bucket_at (snd (bucket_of w s n)) (next_bucket w) =
            \<lparr>bucket_name = n, bucket_storage = s, files = [],
             files_prototype = Object_prototype\<rparr>)
   \<and> (obj_get (files (bucket_at w b)) k = Some v \<longrightarrow> file_of w b k force = (v, w))
   \<and> (ordinary w b k \<and> obj_get (files (bucket_at w b)) k = None \<longrightarrow>
        (\<exists>w1. file_of w b k False = (Instance (next_file w), w1)
            \<and> bucket_at w1 = bucket_at w
            \<and> file_at w1 (next_file w) =
                \<lparr>name = k, bucket = b, parent = b, storage = bucket_storage (bucket_at w b),
                 contents = [], metadata = default_metadata, mockQueues = (\<lambda>m. [])\<rparr>
            \<and> (\<forall>g. g \<noteq> next_file w \<longrightarrow> file_at w1 g = file_at w g)
            \<and> fst (file_of w1 b k False) = Instance (Suc (next_file w))))
   \<and> (ordinary w b k \<and> obj_get (files (bucket_at w b)) k = None \<longrightarrow>
        (\<exists>w2. file_of w b k True = (Instance (next_file w), w2)
            \<and> file_of w2 b k force = (Instance (next_file w), w2)))"
proof (intro conjI impI)
  assume plain: "n \<notin> set Object_prototype_names"
  show "\<exists>b. fst (bucket_of w s n) = Some (Instance b)
        \<and> bucket_of (snd (bucket_of w s n)) s n = (Some (Instance b), snd (bucket_of w s n))"
  proof (cases "obj_get (buckets (storage_at w s)) n")
    case None
    let ?w1 = "update_storage (snd (new_MockBucket w s n)) s
        (\<lambda>this. this\<lparr>buckets := obj_set (buckets this) n (next_bucket w)\<rparr>)"
    have "obj_get (buckets (storage_at ?w1 s)) n = Some (next_bucket w)"
      by (simp add: update_storage_def obj_get_obj_set)
    then have "bucket_of ?w1 s n = (Some (Instance (next_bucket w)), ?w1)"
      by (rule bucket_of_known)
    then show ?thesis
      by (simp add: bucket_of_new [OF plain None])
  next
    case (Some b)
    then show ?thesis by (simp add: bucket_of_known)
  qed
next
  assume "obj_get (buckets (storage_at w s)) n = Some b0"
  then show "bucket_of w s n = (Some (Instance b0), w)" by (rule bucket_of_known)
next
  assume a: "n \<notin> set Object_prototype_names \<and> obj_get (buckets (storage_at w s)) n = None"
  then show "fst (bucket_of w s n) = Some (Instance (next_bucket w))"
    by (simp add: bucket_of_new)
  from a show "bucket_at (snd (bucket_of w s n)) (next_bucket w) =
            \<lparr>bucket_name = n, bucket_storage = s, files = [],
             files_prototype = Object_prototype\<rparr>"
    by (simp add: bucket_of_new new_MockBucket_def update_storage_def)
next
  assume "obj_get (files (bucket_at w b)) k = Some v"
  then show "file_of w b k force = (v, w)" by (rule file_of_known)
next
  assume a: "ordinary w b k \<and> obj_get (files (bucket_at w b)) k = None"
  then have none: "files_at w b k = None"
    by (simp add: files_at_ordinary)
  let ?w1 = "snd (new_MockFile w b k)"
  have b1: "bucket_at ?w1 = bucket_at w"
    by simp
  have n1: "next_file ?w1 = Suc (next_file w)"
    by simp
  have "files_at ?w1 b k = None"
    using a by (simp add: files_at_ordinary)
  then have again: "fst (file_of ?w1 b k False) = Instance (Suc (next_file w))"
    by (simp add: file_of_fresh)
  have f1: "file_at ?w1 (next_file w) =
                \<lparr>name = k, bucket = b, parent = b, storage = bucket_storage (bucket_at w b),
                 contents = [], metadata = default_metadata, mockQueues = (\<lambda>m. [])\<rparr>"
    by simp
  have o1: "\<forall>g. g \<noteq> next_file w \<longrightarrow> file_at ?w1 g = file_at w g"
    by simp
  from file_of_fresh [OF none] b1 f1 o1 again
  show "\<exists>w1. file_of w b k False = (Instance (next_file w), w1)
            \<and> bucket_at w1 = bucket_at w
            \<and> file_at w1 (next_file w) =
                \<lparr>name = k, bucket = b, parent = b, storage = bucket_storage (bucket_at w b),
                 contents = [], metadata = default_metadata, mockQueues = (\<lambda>m. [])\<rparr>
            \<and> (\<forall>g. g \<noteq> next_file w \<longrightarrow> file_at w1 g = file_at w g)
            \<and> fst (file_of w1 b k False) = Instance (Suc (next_file w))"
    by blast
next
  assume a: "ordinary w b k \<and> obj_get (files (bucket_at w b)) k = None"
  let ?w2 = "update_bucket (snd (new_MockFile w b k)) b
        (\<lambda>this. this\<lparr>files := obj_set (files this) k (Instance (next_file w))\<rparr>)"
  have "obj_get (files (bucket_at ?w2 b)) k = Some (Instance (next_file w))"
    by (simp add: update_bucket_def obj_get_obj_set)
  then have "file_of ?w2 b k force = (Instance (next_file w), ?w2)"
    by (rule file_of_known)
  moreover from a have "file_of w b k True = (Instance (next_file w), ?w2)"
    by (simp add: file_of_forced)
  ultimately
  show "\<exists>w2. file_of w b k True = (Instance (next_file w), w2)
      \<and> file_of w2 b k force = (Instance (next_file w), w2)"
    by blast
qed

theorem handles_resolve_by_lookup_witness:
  "bucket_of bucket_world 0 ''test-bucket'' = (Some (Instance 0), bucket_world)
   \<and> fst (bucket_of bucket_world 0 ''other-bucket'') = Some (Instance (Suc 0))
   \<and> file_of test_world 0 ''test-file.txt'' False = (Instance 0, test_world)
   \<and> (\<exists>w1. file_of test_world 0 ''new-file.txt'' False = (Instance (Suc 0), w1)
          \<and> fst (file_of w1 0 ''new-file.txt'' False) = Instance (Suc (Suc 0)))
   \<and> (\<exists>w2. file_of test_world 0 ''new-file.txt'' True = (Instance (Suc 0), w2)
          \<and> file_of w2 0 ''new-file.txt'' False = (Instance (Suc 0), w2))"
proof -
  have known_bucket: "obj_get (buckets (storage_at bucket_world 0)) ''test-bucket'' = Some 0"
    by (simp add: bucket_world_fields obj_get_def)
  have new_bucket: "obj_get (buckets (storage_at bucket_world 0)) ''other-bucket'' = None"
    by (simp add: bucket_world_fields obj_get_def)
  have known_file: "obj_get (files (bucket_at test_world 0)) ''test-file.txt'' = Some (Instance 0)"
    by (simp add: test_world_fields obj_get_def)
  have plain: "ordinary test_world 0 ''new-file.txt''"
    by (simp add: test_world_ordinary plain_names)
  note a = handles_resolve_by_lookup [of "''test-bucket''" bucket_world 0 0 0 "''test-file.txt''"]
  note b = handles_resolve_by_lookup [of "''other-bucket''" bucket_world 0]
  note c = handles_resolve_by_lookup [of "''test-bucket''" test_world 0 _ 0 "''test-file.txt''"
      "Instance 0" False]
  note d = handles_resolve_by_lookup [of "''test-bucket''" test_world 0 _ 0 "''new-file.txt''" _ False]
  from a known_bucket
  have 1: "bucket_of bucket_world 0 ''test-bucket'' = (Some (Instance 0), bucket_world)"
    by blast
  from b new_bucket
  have 2: "fst (bucket_of bucket_world 0 ''other-bucket'') = Some (Instance (Suc 0))"
    by (simp add: bucket_world_fields plain_names)
  from c known_file
  have 3: "file_of test_world 0 ''test-file.txt'' False = (Instance 0, test_world)"
    by blast
  from d test_world_absent plain
  have 4: "\<exists>w1. file_of test_world 0 ''new-file.txt'' False = (Instance (Suc 0), w1)
          \<and> fst (file_of w1 0 ''new-file.txt'' False) = Instance (Suc (Suc 0))"
    by (simp add: test_world_fields) blast
  from d test_world_absent plain
  have 5: "\<exists>w2. file_of test_world 0 ''new-file.txt'' True = (Instance (Suc 0), w2)
          \<and> file_of w2 0 ''new-file.txt'' False = (Instance (Suc 0), w2)"
    by (simp add: test_world_fields)
  from 1 2 3 4 5 show ?thesis by blast
qed




end
